theory Spec2Isabelle
  imports Complex_Main "HOL-Library.AList"
begin

section \<open>Common data\<close>

text \<open>
  Locations and sensor names are Python strings; epiweeks, seasons and list indices are
  Python integers. Every \<open>raise\<close> of the source and every failing lookup is a value of
  \<open>error\<close>; a function that can raise returns \<open>error + 'a\<close> with \<open>Inl\<close> the error.
  Python floats are idealised as \<open>real\<close>; the weight matrices are \<open>fractions.Fraction\<close>
  in the source and \<open>rat\<close> here.
\<close>

type_synonym location = string
type_synonym epiweek = int

datatype error =
    KeyError
  | IndexError
  | EmptyLocation location
  | InputContainsExcluded
  | NotPredicting
  | TooFresh int
  | InsufficientTraining nat nat
  | TrainedOnFuture
  | SignalUnavailable string epiweek
  | SignalTooShort string nat
  | TargetsTooShort nat
  | LengthMismatch nat nat nat
  | AttributeError
  | ZeroDivisionError
  | ExternalError string

section \<open>fusion/datasetname\_location\_mapper.py\<close>

text \<open>
  The two collaborators of \<open>get_weight_row\<close> that live outside the repository:
  \<open>Locations.region_map\<close>, a dictionary from a location to the atoms it contains, and
  \<open>get_population(atom[, season])\<close>, a population count.
\<close>

record geo =
  region_map :: "location \<rightharpoonup> location list"
  get_population :: "location \<Rightarrow> int option \<Rightarrow> nat"

definition remapped_atom_to_atoms :: "location \<Rightarrow> location list" where
  "remapped_atom_to_atoms atom =
     (if atom = ''ny'' then [''ny_minus_jfk'', ''jfk''] else [atom])"

text \<open>\<open>if season:\<close> is false for \<open>None\<close> and for \<open>0\<close>.\<close>

definition season_population :: "geo \<Rightarrow> int option \<Rightarrow> location \<Rightarrow> nat" where
  "season_population g season remapping_atom =
     (case season of
        None \<Rightarrow> get_population g remapping_atom None
      | Some s \<Rightarrow>
          if s \<noteq> 0 then get_population g remapping_atom (Some (max s 2013))
          else get_population g remapping_atom None)"

text \<open>The inner loop over the remapped atoms, with the members of the location looked up.\<close>

fun remapped_population :: "geo \<Rightarrow> location list \<Rightarrow> int option \<Rightarrow> location list \<Rightarrow> nat \<Rightarrow> nat" where
  "remapped_population g members season [] population = population"
| "remapped_population g members season (remapping_atom # rest) population =
     remapped_population g members season rest
       (if remapping_atom \<in> set members
        then population + season_population g season remapping_atom
        else population + 0)"

definition atom_population :: "geo \<Rightarrow> location list \<Rightarrow> int option \<Rightarrow> location \<Rightarrow> nat" where
  "atom_population g members season atom =
     remapped_population g members season (remapped_atom_to_atoms atom) 0"

text \<open>
  The outer loop, carrying \<open>total_population\<close> and \<open>atom_populations\<close>. The lookup
  \<open>Locations.region_map[location]\<close> happens inside the loop, so an unknown location raises
  \<open>KeyError\<close> only when there is an atom to check.
\<close>

fun check_atoms :: "geo \<Rightarrow> location \<Rightarrow> int option \<Rightarrow> location list \<Rightarrow> nat \<times> nat list
    \<Rightarrow> error + (nat \<times> nat list)" where
  "check_atoms g location season [] acc = Inr acc"
| "check_atoms g location season (atom # atoms) (total_population, atom_populations) =
     (case region_map g location of
        None \<Rightarrow> Inl KeyError
      | Some members \<Rightarrow>
          (let population = atom_population g members season atom
           in check_atoms g location season atoms
                (total_population + population, atom_populations @ [population])))"

definition get_fraction :: "nat \<Rightarrow> nat \<Rightarrow> rat" where
  "get_fraction total_population pop = Fract (int pop) (int total_population)"

definition get_weight_row :: "geo \<Rightarrow> location \<Rightarrow> int option \<Rightarrow> location list \<Rightarrow> error + rat list" where
  "get_weight_row g location season atoms =
     (case check_atoms g location season atoms (0, []) of
        Inl e \<Rightarrow> Inl e
      | Inr (total_population, atom_populations) \<Rightarrow>
          if total_population = 0 then Inl (EmptyLocation location)
          else Inr (map (get_fraction total_population) atom_populations))"

type_synonym matrix = "rat list list"

text \<open>Rows are built one location after the other; the first failing row ends the call.\<close>

fun get_weight_matrix :: "geo \<Rightarrow> location list \<Rightarrow> int option \<Rightarrow> location list \<Rightarrow> error + matrix" where
  "get_weight_matrix g [] season atoms = Inr []"
| "get_weight_matrix g (loc # locations) season atoms =
     (case get_weight_row g loc season atoms of
        Inl e \<Rightarrow> Inl e
      | Inr row \<Rightarrow>
          (case get_weight_matrix g locations season atoms of
             Inl e \<Rightarrow> Inl e
           | Inr rows \<Rightarrow> Inr (row # rows)))"

record data_source =
  ALL_LOCATIONS :: "location list"
  ATOMIC_LOCATIONS :: "location list"

text \<open>
  Indexing a Python list by an integer: \<open>xs[i]\<close> for \<open>0 \<le> i < len(xs)\<close>, \<open>xs[len(xs) + i]\<close>
  for \<open>-len(xs) \<le> i < 0\<close>, and \<open>IndexError\<close> for any other \<open>i\<close>.
\<close>

definition py_index :: "'a list \<Rightarrow> int \<Rightarrow> error + 'a" where
  "py_index xs i =
     (if 0 \<le> i \<and> i < int (length xs) then Inr (xs ! nat i)
      else if i < 0 \<and> - int (length xs) \<le> i then Inr (xs ! nat (int (length xs) + i))
      else Inl IndexError)"

fun select_locations :: "location list \<Rightarrow> int list \<Rightarrow> error + location list" where
  "select_locations all_locations [] = Inr []"
| "select_locations all_locations (i # selected_rows) =
     (case py_index all_locations i of
        Inl e \<Rightarrow> Inl e
      | Inr loc \<Rightarrow>
          (case select_locations all_locations selected_rows of
             Inl e \<Rightarrow> Inl e
           | Inr locs \<Rightarrow> Inr (loc # locs)))"

definition astype :: "(rat \<Rightarrow> 'f) \<Rightarrow> matrix \<Rightarrow> 'f list list" where
  "astype to_float M = map (map to_float) M"

text \<open>
  \<open>determine_statespace\<close>. The reduction \<open>fusion.determine_statespace\<close> is outside the
  repository and is the parameter \<open>reduce\<close>; the conversion \<open>astype(np.float)\<close> at the
  return is the parameter \<open>to_float\<close>. The first component of the result lists the
  arguments of every call made to \<open>reduce\<close>, in order. The \<open>lru_cache\<close> decorator only
  replays the result of an earlier call with equal arguments and is not modelled.
\<close>

definition determine_statespace ::
  "geo \<Rightarrow> (matrix \<Rightarrow> matrix \<Rightarrow> error + (matrix \<times> matrix \<times> int list)) \<Rightarrow> (rat \<Rightarrow> 'f)
   \<Rightarrow> location list \<Rightarrow> data_source \<Rightarrow> int option \<Rightarrow> location list
   \<Rightarrow> (matrix \<times> matrix) list \<times> (error + ('f list list \<times> 'f list list \<times> location list))" where
  "determine_statespace g reduce to_float input_locations ds season exclude_locations =
     (if set exclude_locations \<inter> set input_locations \<noteq> {} then ([], Inl InputContainsExcluded)
      else
        let atom_filter = (\<lambda>a. a \<notin> set exclude_locations);
            all_locations = filter atom_filter (ALL_LOCATIONS ds);
            atoms = filter atom_filter (ATOMIC_LOCATIONS ds)
        in case get_weight_matrix g input_locations season atoms of
             Inl e \<Rightarrow> ([], Inl e)
           | Inr H0 \<Rightarrow>
              (case get_weight_matrix g all_locations season atoms of
                 Inl e \<Rightarrow> ([], Inl e)
               | Inr W0 \<Rightarrow>
                  if set atoms \<subseteq> set input_locations
                  then ([], Inr (astype to_float H0, astype to_float W0, all_locations))
                  else
                    (case reduce H0 W0 of
                       Inl e \<Rightarrow> ([(H0, W0)], Inl e)
                     | Inr (H, W, selected_rows) \<Rightarrow>
                        (case select_locations all_locations selected_rows of
                           Inl e \<Rightarrow> ([(H0, W0)], Inl e)
                         | Inr output_locations \<Rightarrow>
                            ([(H0, W0)],
                             Inr (astype to_float H, astype to_float W, output_locations))))))"

section \<open>The epiweek calendar\<close>

text \<open>
  \<open>delphi.utils.epiweek\<close> is not part of the repository: its operations are the fields of
  a record that the functions below receive. \<open>range_epiweeks\<close> is the inclusive range.
\<close>

record calendar =
  add_epiweeks :: "epiweek \<Rightarrow> int \<Rightarrow> epiweek"
  delta_epiweeks :: "epiweek \<Rightarrow> epiweek \<Rightarrow> int"
  range_epiweeks :: "epiweek \<Rightarrow> epiweek \<Rightarrow> epiweek list"
  split_epiweek :: "epiweek \<Rightarrow> int \<times> int"
  get_num_weeks :: "int \<Rightarrow> int"

text \<open>
  A Python \<open>dict\<close> whose iteration order or size matters is an association list kept by
  \<open>AList.update\<close>: a new key goes to the end, an old key keeps its place, so the list
  has one entry per key, in insertion order.
\<close>

type_synonym ('k, 'v) dict = "('k \<times> 'v) list"

section \<open>util/datasetname\_data\_source.py\<close>

definition DATASOURCE_ATOMIC_LOCATIONS :: "location list" where
  "DATASOURCE_ATOMIC_LOCATIONS =
     [''ak'', ''al'', ''ar'', ''az'', ''ca'', ''co'', ''ct'', ''dc'', ''de'',
      ''fl'', ''ga'', ''hi'', ''ia'', ''id'', ''il'', ''in'', ''ks'', ''ky'',
      ''la'', ''ma'', ''md'', ''me'', ''mi'', ''mn'', ''mo'', ''ms'', ''mt'',
      ''nc'', ''nd'', ''ne'', ''nh'', ''nj'', ''nm'', ''nv'', ''ny'', ''oh'',
      ''ok'', ''or'', ''pa'', ''pr'', ''ri'', ''sc'', ''sd'', ''tn'', ''tx'',
      ''ut'', ''va'', ''vi'', ''vt'', ''wa'', ''wi'', ''wv'', ''wy'']"

definition LAST_DATA_EPIWEEK :: epiweek where
  "LAST_DATA_EPIWEEK = 201752"

text \<open>
  The nested dictionary \<open>cache[name][target][location][epiweek]\<close> is one map on the four
  keys; a cached value may itself be \<open>None\<close>. The remote call
  \<open>epidata.datasetname_targets(auth, target, location, epiweek)\<close> is the parameter \<open>api\<close>:
  it gives \<open>None\<close> when the response's result is not 1 and the first row's value otherwise.
\<close>

type_synonym cache_key = "string \<times> string \<times> location \<times> epiweek"

record source_state =
  ds_target :: string
  ds_cache :: "cache_key \<rightharpoonup> real option"
  ds_missing_memo :: "epiweek \<rightharpoonup> location list"

definition add_to_cache ::
  "source_state \<Rightarrow> string \<Rightarrow> string \<Rightarrow> location \<Rightarrow> epiweek \<Rightarrow> real option
   \<Rightarrow> real option \<times> source_state" where
  "add_to_cache self name target location ew v =
     (v, self\<lparr>ds_cache := (ds_cache self)((name, target, location, ew) \<mapsto> v)\<rparr>)"

definition get_truth_value ::
  "(string \<Rightarrow> location \<Rightarrow> epiweek \<Rightarrow> real option) \<Rightarrow> source_state \<Rightarrow> epiweek \<Rightarrow> location
   \<Rightarrow> real option \<times> source_state" where
  "get_truth_value api self ew location =
     (case ds_cache self (''datasetname_targets'', ds_target self, location, ew) of
        Some v \<Rightarrow> (v, self)
      | None \<Rightarrow>
          (case api (ds_target self) location ew of
             None \<Rightarrow> add_to_cache self ''datasetname_targets'' (ds_target self) location ew None
           | Some v \<Rightarrow>
               add_to_cache self ''datasetname_targets'' (ds_target self) location ew (Some v)))"

text \<open>The loop of \<open>get_missing_locations\<close>, threading the cache.\<close>

fun available_loop ::
  "(string \<Rightarrow> location \<Rightarrow> epiweek \<Rightarrow> real option) \<Rightarrow> source_state \<Rightarrow> epiweek
   \<Rightarrow> location list \<Rightarrow> location list \<Rightarrow> location list \<times> source_state" where
  "available_loop api self ew [] available_locations = (available_locations, self)"
| "available_loop api self ew (loc # locs) available_locations =
     (case get_truth_value api self ew loc of
        (None, self') \<Rightarrow> available_loop api self' ew locs available_locations
      | (Some v, self') \<Rightarrow> available_loop api self' ew locs (available_locations @ [loc]))"

text \<open>
  Python leaves the iteration order of a \<open>set\<close> open; the model walks the atoms in the
  order of the catalogue, without duplicates, and returns the tuple in that order too.
  \<open>missing_locations_body\<close> is the body of the method.
\<close>

definition missing_locations_body ::
  "(string \<Rightarrow> location \<Rightarrow> epiweek \<Rightarrow> real option) \<Rightarrow> source_state \<Rightarrow> epiweek
   \<Rightarrow> location list \<times> source_state" where
  "missing_locations_body api self ew =
     (let atomic_locations = remdups DATASOURCE_ATOMIC_LOCATIONS
      in case available_loop api self ew atomic_locations [] of
           (available_locations, self') \<Rightarrow>
             if available_locations \<noteq> []
             then (filter (\<lambda>loc. loc \<notin> set available_locations) atomic_locations, self')
             else ([], self'))"

text \<open>
  The method is decorated with \<open>functools.lru_cache(maxsize=None)\<close>: the first call for an
  epiweek runs the body and keeps its result, every later call for that epiweek returns the
  kept result without running the body. \<open>ds_missing_memo\<close> is that table for the object.
\<close>

definition get_missing_locations ::
  "(string \<Rightarrow> location \<Rightarrow> epiweek \<Rightarrow> real option) \<Rightarrow> source_state \<Rightarrow> epiweek
   \<Rightarrow> location list \<times> source_state" where
  "get_missing_locations api self ew =
     (case ds_missing_memo self ew of
        Some kept \<Rightarrow> (kept, self)
      | None \<Rightarrow>
          (case missing_locations_body api self ew of
             (missing, self') \<Rightarrow>
               (missing, self'\<lparr>ds_missing_memo := (ds_missing_memo self')(ew \<mapsto> missing)\<rparr>)))"

section \<open>sensors/sensor\_update.py: the loch-ness fit\<close>

text \<open>
  A row of a signal response: its epiweek and its fields. \<open>Epidata.range\<close> only pairs the
  two ends of a range. The remote calls (already passed through \<open>Epidata.check\<close>, so a
  failed call is an error) and the numerical solve of numpy are parameters.
\<close>

type_synonym signal_row = "epiweek \<times> (string \<rightharpoonup> real)"
type_synonym week_range = "epiweek \<times> epiweek"

text \<open>
  The argument \<open>fields\<close> is a string or a list of strings; its list form is
  \<open>field_list\<close> below.
\<close>

datatype fields_arg = Field string | Fields "string list"

definition get_weeks :: "calendar \<Rightarrow> epiweek \<Rightarrow> epiweek \<times> epiweek \<times> epiweek \<times> week_range \<times> week_range" where
  "get_weeks cal ew =
     (let ew1 = 199301; ew2 = ew; ew3 = add_epiweeks cal ew 1
      in (ew1, ew2, ew3, (ew1, ew2), (ew1, ew3)))"

fun row_floats :: "(string \<rightharpoonup> real) \<Rightarrow> string list \<Rightarrow> error + real list" where
  "row_floats row [] = Inr []"
| "row_floats row (f # field_list) =
     (case row f of
        None \<Rightarrow> Inl KeyError
      | Some v \<Rightarrow> (case row_floats row field_list of Inl e \<Rightarrow> Inl e | Inr vs \<Rightarrow> Inr (v # vs)))"

text \<open>\<open>extract\<close> of the source (the name is reserved in Isabelle) is \<open>extract_signal\<close>.\<close>

fun extract_loop :: "calendar \<Rightarrow> signal_row list \<Rightarrow> string list \<Rightarrow> int
    \<Rightarrow> (epiweek, real list) dict \<Rightarrow> error + (epiweek, real list) dict" where
  "extract_loop cal [] field_list signal_to_truth_ew_shift data = Inr data"
| "extract_loop cal ((ew, row) # rows) field_list signal_to_truth_ew_shift data =
     (case row_floats row field_list of
        Inl e \<Rightarrow> Inl e
      | Inr vs \<Rightarrow>
          extract_loop cal rows field_list signal_to_truth_ew_shift
            (AList.update (add_epiweeks cal ew signal_to_truth_ew_shift) vs data))"

definition extract_signal :: "calendar \<Rightarrow> signal_row list \<Rightarrow> string list \<Rightarrow> int
    \<Rightarrow> error + (epiweek, real list) dict" where
  "extract_signal cal rows field_list signal_to_truth_ew_shift =
     extract_loop cal rows field_list signal_to_truth_ew_shift []"

text \<open>
  The loop of \<open>get_training_set_datasetname\<close> over \<open>signal.keys()\<close>, carrying \<open>data\<close> and
  \<open>dropped_weeks\<close>. The week to predict is skipped before anything else is looked at.
  The keys of \<open>signal\<close> are the weeks that \<open>extract\<close> has already shifted; the loop adds the
  shift to them once more, and \<open>data\<close> is keyed by the result.
\<close>

fun align_loop :: "calendar \<Rightarrow> int \<Rightarrow> epiweek \<Rightarrow> (epiweek \<rightharpoonup> real) \<Rightarrow> (epiweek, real list) dict
    \<Rightarrow> (epiweek, real list \<times> real) dict \<times> nat \<Rightarrow> (epiweek, real list \<times> real) dict \<times> nat" where
  "align_loop cal signal_to_truth_ew_shift ew3 groundTruth [] acc = acc"
| "align_loop cal signal_to_truth_ew_shift ew3 groundTruth ((signal_week, sig) # rest)
       (data, dropped_weeks) =
     (let ground_truth_week = add_epiweeks cal signal_week signal_to_truth_ew_shift
      in if ground_truth_week = ew3
         then align_loop cal signal_to_truth_ew_shift ew3 groundTruth rest (data, dropped_weeks)
         else
           (case groundTruth ground_truth_week of
              Some label \<Rightarrow>
                align_loop cal signal_to_truth_ew_shift ew3 groundTruth rest
                  (AList.update ground_truth_week (sig, label) data, dropped_weeks)
            | None \<Rightarrow>
                align_loop cal signal_to_truth_ew_shift ew3 groundTruth rest
                  (data, dropped_weeks + 1)))"

fun lookup_each :: "('k, 'v) dict \<Rightarrow> 'k list \<Rightarrow> error + 'v list" where
  "lookup_each data [] = Inr []"
| "lookup_each data (week # weeks) =
     (case map_of data week of
        None \<Rightarrow> Inl KeyError
      | Some v \<Rightarrow> (case lookup_each data weeks of Inl e \<Rightarrow> Inl e | Inr vs \<Rightarrow> Inr (v # vs)))"

definition ground_truth_dict :: "(epiweek \<times> real) list \<Rightarrow> (epiweek \<rightharpoonup> real)" where
  "ground_truth_dict rows = fold (\<lambda>(ew, v) groundTruth. groundTruth(ew \<mapsto> v)) rows Map.empty"

text \<open>The warning printed when weeks were dropped is not part of the result.\<close>

definition get_training_set_datasetname ::
  "calendar \<Rightarrow> (string \<Rightarrow> location \<Rightarrow> week_range \<Rightarrow> error + (epiweek \<times> real) list)
   \<Rightarrow> location \<Rightarrow> epiweek \<Rightarrow> (epiweek, real list) dict \<Rightarrow> string \<Rightarrow> int
   \<Rightarrow> error + (epiweek list \<times> real list list \<times> real list)" where
  "get_training_set_datasetname cal datasetname_targets location ew signal target
       signal_to_truth_ew_shift =
     (case get_weeks cal ew of
        (ew1, ew2, ew3, weeks0, weeks1) \<Rightarrow>
          (case datasetname_targets target location weeks0 of
             Inl e \<Rightarrow> Inl e
           | Inr datasetnameData \<Rightarrow>
               (case align_loop cal signal_to_truth_ew_shift ew3
                       (ground_truth_dict datasetnameData) signal ([], 0) of
                  (data, dropped_weeks) \<Rightarrow>
                    (let epiweeks = sort (map fst data)
                     in case lookup_each data epiweeks of
                          Inl e \<Rightarrow> Inl e
                        | Inr xys \<Rightarrow> Inr (epiweeks, map fst xys, map snd xys)))))"

text \<open>Python's \<open>%\<close> on floats with a positive divisor.\<close>

definition py_fmod :: "real \<Rightarrow> real \<Rightarrow> real" where
  "py_fmod x y = x - y * of_int \<lfloor>x / y\<rfloor>"

text \<open>The body of \<open>get_weight\<close> once \<open>dw = delta_epiweeks(ew1, ew2)\<close> is known.\<close>

definition weight_of_delta :: "int \<Rightarrow> real" where
  "weight_of_delta dw =
     (let yr = 522 / 10; hl1 = yr; hl2 = 1; bw = 4; a = 5 / 100;
          b = exp (- ((min (py_fmod (of_int dw) yr) (yr - py_fmod (of_int dw) yr) / bw)\<^sup>2));
          c = 2 powr (- (of_int dw / hl1));
          d = 1 - 2 powr (- (of_int dw / hl2))
      in (a + (1 - a) * b) * c * d)"

definition get_weight :: "calendar \<Rightarrow> epiweek \<Rightarrow> epiweek \<Rightarrow> real" where
  "get_weight cal ew1 ew2 = weight_of_delta (delta_epiweeks cal ew1 ew2)"

definition get_periodic_bias :: "calendar \<Rightarrow> epiweek \<Rightarrow> real list" where
  "get_periodic_bias cal ew =
     (let weeks_per_year = 522 / 10;
          offset = py_fmod (of_int (delta_epiweeks cal 200001 ew)) weeks_per_year;
          angle = pi * 2 * offset / weeks_per_year
      in [sin angle, cos angle])"

definition dot_row :: "real list \<Rightarrow> real list \<Rightarrow> error + real" where
  "dot_row obs beta =
     (if length obs \<noteq> length beta then Inl (ExternalError ''shapes not aligned'')
      else Inr (sum_list (map2 (*) obs beta)))"

definition apply_model :: "calendar \<Rightarrow> epiweek \<Rightarrow> real list \<Rightarrow> real list \<Rightarrow> error + real" where
  "apply_model cal ew beta vals =
     (let bias0 = [1]
      in if length beta > length vals + 1
         then dot_row (vals @ bias0 @ get_periodic_bias cal ew) beta
         else dot_row (vals @ bias0) beta)"

text \<open>
  \<open>get_model\<close> up to the weighted normal equations, which \<open>wls\<close> solves from the design
  matrix, the diagonal of the weights and the labels (it fails on a singular matrix).
\<close>

definition get_model ::
  "calendar \<Rightarrow> (real list list \<Rightarrow> real list \<Rightarrow> real list \<Rightarrow> error + real list)
   \<Rightarrow> epiweek \<Rightarrow> epiweek list \<Rightarrow> real list list \<Rightarrow> real list \<Rightarrow> error + real list" where
  "get_model cal wls ew2 epiweeks X Y =
     (case X of
        [] \<Rightarrow> Inl IndexError
      | x0 # _ \<Rightarrow>
          (let ne = length epiweeks; nx1 = length X; ny = length Y
           in if ne \<noteq> nx1 \<or> nx1 \<noteq> ny then Inl (LengthMismatch ne nx1 ny)
              else
                (let weights = map (\<lambda>ew1. get_weight cal ew1 ew2) epiweeks
                 in if ne \<ge> 26 \<and> delta_epiweeks cal (hd epiweeks) (last epiweeks) \<ge> 52
                    then wls (map2 (\<lambda>x ew. x @ [1] @ get_periodic_bias cal ew) X epiweeks)
                           weights Y
                    else wls (map (\<lambda>x. x @ [1]) X) weights Y)))"

text \<open>
  \<open>fit_loch_ness\<close> in two parts: \<open>fit_aligned\<close> is everything after the call of
  \<open>get_training_set_datasetname\<close>, applied to the outcome of that call.
\<close>

definition fit_aligned ::
  "calendar \<Rightarrow> (real list list \<Rightarrow> real list \<Rightarrow> real list \<Rightarrow> error + real list)
   \<Rightarrow> epiweek \<Rightarrow> nat \<Rightarrow> real list
   \<Rightarrow> error + (epiweek list \<times> real list list \<times> real list) \<Rightarrow> error + real" where
  "fit_aligned cal wls ew3 min_rows signal_ew3 training_set =
     (case training_set of
        Inl e \<Rightarrow> Inl e
      | Inr (epiweeks, X, Y) \<Rightarrow>
          (let min_rows' = min_rows - 1
           in if length Y < min_rows' then Inl (TargetsTooShort min_rows')
              else
                (case get_model cal wls ew3 epiweeks X Y of
                   Inl e \<Rightarrow> Inl e
                 | Inr model \<Rightarrow> apply_model cal ew3 model signal_ew3)))"

definition fit_loch_ness ::
  "calendar \<Rightarrow> (real list list \<Rightarrow> real list \<Rightarrow> real list \<Rightarrow> error + real list)
   \<Rightarrow> (string \<Rightarrow> location \<Rightarrow> week_range \<Rightarrow> error + (epiweek \<times> real) list)
   \<Rightarrow> location \<Rightarrow> epiweek \<Rightarrow> string \<Rightarrow> fields_arg \<Rightarrow> (week_range \<Rightarrow> error + signal_row list)
   \<Rightarrow> bool \<Rightarrow> string \<Rightarrow> int \<Rightarrow> error + real" where
  "fit_loch_ness cal wls datasetname_targets location ew name fields_in fetch valid target
       signal_to_truth_ew_shift =
     (let field_list = (case fields_in of Field f \<Rightarrow> [f] | Fields fs \<Rightarrow> fs)
      in case get_weeks cal ew of
        (ew1, ew2, ew3, weeks0, weeks1) \<Rightarrow>
          (case fetch weeks1 of
             Inl e \<Rightarrow> Inl e
           | Inr rows \<Rightarrow>
               (case extract_signal cal rows field_list signal_to_truth_ew_shift of
                  Inl e \<Rightarrow> Inl e
                | Inr signal \<Rightarrow>
                    (let min_rows = max (10 * length field_list) 52
                     in case map_of signal ew3 of
                          None \<Rightarrow> Inl (SignalUnavailable name ew3)
                        | Some signal_ew3 \<Rightarrow>
                            if length signal < min_rows then Inl (SignalTooShort name min_rows)
                            else
                              fit_aligned cal wls ew3 min_rows signal_ew3
                                (get_training_set_datasetname cal datasetname_targets
                                   location ew signal target signal_to_truth_ew_shift)))))"

section \<open>sensors/sensor\_update.py: the orchestrator\<close>

text \<open>
  A sensor implementation takes \<open>(location, epiweek, valid, target)\<close> and returns a float
  or raises. What \<open>update_single\<close> prints is a list of lines; \<open>database.insert\<close> belongs to
  the persistence layer outside the repository and is the parameter \<open>db_insert\<close>, which
  may itself raise.
\<close>

type_synonym sensor_impl = "location \<Rightarrow> epiweek \<Rightarrow> bool \<Rightarrow> string \<Rightarrow> error + real"
type_synonym reading = "string \<times> string \<times> location \<times> epiweek \<times> real"

datatype printed =
    Updated string location epiweek real
  | Failed string location epiweek error

record sensor_update =
  su_valid :: bool
  su_implementations :: "string \<rightharpoonup> sensor_impl"
  su_target :: string

definition update_single ::
  "calendar \<Rightarrow> ('db \<Rightarrow> reading \<Rightarrow> error + 'db) \<Rightarrow> sensor_update \<Rightarrow> 'db \<times> printed list
   \<Rightarrow> epiweek \<Rightarrow> string \<Rightarrow> location \<Rightarrow> error + ('db \<times> printed list)" where
  "update_single cal db_insert self st test_week name location =
     (case st of
        (database, out) \<Rightarrow>
          (let train_week = add_epiweeks cal test_week (- 1)
           in case su_implementations self name of
                None \<Rightarrow> Inl KeyError
              | Some impl \<Rightarrow>
                  (case impl location train_week (su_valid self) (su_target self) of
                     Inr v \<Rightarrow>
                       (case db_insert database (su_target self, name, location, test_week, v) of
                          Inl e \<Rightarrow> Inl e
                        | Inr database' \<Rightarrow>
                            Inr (database', out @ [Updated name location test_week v]))
                   | Inl ex \<Rightarrow> Inr (database, out @ [Failed name location test_week ex]))))"

text \<open>The innermost loop of \<open>update\<close>, over the weeks of \<open>range_epiweeks(ew1, last_week)\<close>.\<close>

fun update_weeks ::
  "calendar \<Rightarrow> ('db \<Rightarrow> reading \<Rightarrow> error + 'db) \<Rightarrow> sensor_update \<Rightarrow> 'db \<times> printed list
   \<Rightarrow> epiweek list \<Rightarrow> string \<Rightarrow> location \<Rightarrow> error + ('db \<times> printed list)" where
  "update_weeks cal db_insert self st [] name location = Inr st"
| "update_weeks cal db_insert self st (test_week # weeks) name location =
     (case update_single cal db_insert self st test_week name location of
        Inl e \<Rightarrow> Inl e
      | Inr st' \<Rightarrow> update_weeks cal db_insert self st' weeks name location)"

text \<open>A persistence layer that keeps, in order, every reading passed to \<open>insert\<close>.\<close>

definition recording_insert :: "reading list \<Rightarrow> reading \<Rightarrow> error + reading list" where
  "recording_insert database r = Inr (database @ [r])"

definition produced :: "calendar \<Rightarrow> sensor_update \<Rightarrow> sensor_impl \<Rightarrow> string \<Rightarrow> location \<Rightarrow> epiweek
    \<Rightarrow> reading option" where
  "produced cal self impl name location test_week =
     (case impl location (add_epiweeks cal test_week (- 1)) (su_valid self) (su_target self) of
        Inr v \<Rightarrow> Some (su_target self, name, location, test_week, v)
      | Inl ex \<Rightarrow> None)"

section \<open>sensors/isch.py\<close>

text \<open>
  The fields of an \<open>ISCH\<close> object that \<open>train\<close> and \<open>predict\<close> read or write;
  \<open>self.data[i]['stable']\<close> is \<open>isch_data\<close> at \<open>i\<close> (every entry of \<open>self.data\<close> is created
  with that one key). The least-squares solve \<open>inv(X'X) X'Y\<close> of numpy is the parameter
  \<open>ols\<close>, which fails on a singular matrix.
\<close>

record isch =
  isch_region :: location
  isch_target :: string
  isch_data :: "(int, real) dict"
  ew2i :: "(epiweek, int) dict"
  i2ew :: "(int, epiweek) dict"
  isch_weeks :: "int list"
  isch_model :: "real list option"
  training_week :: "epiweek option"





definition get_features :: "calendar \<Rightarrow> isch \<Rightarrow> epiweek \<Rightarrow> error + real list" where
  "get_features cal self ew =
     (case map_of (ew2i self) ew of
        None \<Rightarrow> Inl KeyError
      | Some i \<Rightarrow>
          (let holidays =
                 map (\<lambda>holiday. if snd (split_epiweek cal (add_epiweeks cal ew holiday)) = 1
                                 then 1 else 0) [0, 1, 2, 3]
           in case split_epiweek cal ew of
                (y, w) \<Rightarrow>
                  (let N = get_num_weeks cal y
                   in if N = 0 then Inl ZeroDivisionError
                      else
                        (let offset = pi * 2 * of_int w / of_int N
                         in Inr ([1] @ holidays @ [sin offset, cos offset])))))"

text \<open>The loop of \<open>train\<close> that fills \<open>X\<close> and \<open>Y\<close>, one row for each \<open>i\<close> of the window.\<close>

fun training_rows :: "calendar \<Rightarrow> isch \<Rightarrow> int list \<Rightarrow> error + (real list \<times> real) list" where
  "training_rows cal self [] = Inr []"
| "training_rows cal self (i # rest) =
     (case map_of (i2ew self) i of
        None \<Rightarrow> Inl KeyError
      | Some ew \<Rightarrow>
          (case get_features cal self ew of
             Inl e \<Rightarrow> Inl e
           | Inr x \<Rightarrow>
               (case map_of (isch_data self) (i + 1) of
                  None \<Rightarrow> Inl KeyError
                | Some y \<Rightarrow>
                    (case training_rows cal self rest of
                       Inl e \<Rightarrow> Inl e
                     | Inr rows \<Rightarrow> Inr ((x, y) # rows)))))"

definition n_features :: nat where
  "n_features = 7"

definition train ::
  "calendar \<Rightarrow> (real list list \<Rightarrow> real list \<Rightarrow> error + real list) \<Rightarrow> isch \<Rightarrow> epiweek
   \<Rightarrow> error + (isch \<times> real list list \<times> real list \<times> real list)" where
  "train cal ols self ew =
     (case map_of (ew2i self) ew of
        None \<Rightarrow> Inl NotPredicting
      | Some i_ew \<Rightarrow>
          (case py_index (isch_weeks self) 2 of
             Inl e \<Rightarrow> Inl e
           | Inr i1 \<Rightarrow>
               (case map_of (ew2i self) LAST_DATA_EPIWEEK of
                  None \<Rightarrow> Inl KeyError
                | Some i_last \<Rightarrow>
                    (let i2 = min (i_ew - 5) (i_last - 1)
                     in if i2 < i1 then Inl (TooFresh (i1 - i2))
                        else
                          (case map_of (i2ew self) i2 of
                             None \<Rightarrow> Inl KeyError
                           | Some ew2 \<Rightarrow>
                               (case training_rows cal self [i1..i2] of
                                  Inl e \<Rightarrow> Inl e
                                | Inr rows \<Rightarrow>
                                    (let X = map fst rows; Y = map snd rows;
                                         min_training_instances = max (10 * n_features) 52
                                     in if length X < min_training_instances
                                        then Inl (InsufficientTraining (length X)
                                                    min_training_instances)
                                        else
                                          (let max_training_instances = 50 * n_features;
                                               X' = drop (length X - max_training_instances) X;
                                               Y' = drop (length Y - max_training_instances) Y
                                           in case ols X' Y' of
                                                Inl e \<Rightarrow> Inl e
                                              | Inr model \<Rightarrow>
                                                  Inr (self\<lparr>isch_model := Some model,
                                                            training_week := Some ew\<rparr>,
                                                       X', Y', model)))))))))"

definition predict ::
  "calendar \<Rightarrow> (real list list \<Rightarrow> real list \<Rightarrow> error + real list) \<Rightarrow> isch \<Rightarrow> epiweek
   \<Rightarrow> bool \<Rightarrow> bool \<Rightarrow> error + (real \<times> isch)" where
  "predict cal ols self ew do_train valid =
     (case (if do_train
            then (case train cal ols self ew of Inl e \<Rightarrow> Inl e | Inr (self', r) \<Rightarrow> Inr self')
            else Inr self) of
        Inl e \<Rightarrow> Inl e
      | Inr self' \<Rightarrow>
          (case training_week self' of
             None \<Rightarrow> Inl AttributeError
           | Some tw \<Rightarrow>
               if tw > ew then Inl TrainedOnFuture
               else
                 (case get_features cal self' ew of
                    Inl e \<Rightarrow> Inl e
                  | Inr X \<Rightarrow>
                      (case isch_model self' of
                         None \<Rightarrow> Inl AttributeError
                       | Some model \<Rightarrow>
                           (case dot_row X model of
                              Inl e \<Rightarrow> Inl e
                            | Inr v \<Rightarrow> Inr (v, self'))))))"


section \<open>Example data\<close>

text \<open>
  Small concrete collaborators on which the theorems below are exercised: a geography with
  one region, the split state \<open>ny\<close> and an unpopulated territory, and two catalogues.
\<close>

definition example_geo :: geo where
  "example_geo =
     \<lparr>region_map =
        [''hhs2'' \<mapsto> [''nj'', ''ny_minus_jfk'', ''jfk'', ''pr'', ''vi''],
         ''nj'' \<mapsto> [''nj''],
         ''ny'' \<mapsto> [''ny_minus_jfk'', ''jfk''],
         ''pa'' \<mapsto> [''pa''],
         ''vi'' \<mapsto> [''vi'']],
      get_population = (\<lambda>atom season.
         if atom = ''nj'' then 9 else if atom = ''ny_minus_jfk'' then 11
         else if atom = ''jfk'' then 8 else if atom = ''pa'' then 13 else 0)\<rparr>"

definition example_source :: data_source where
  "example_source =
     \<lparr>ALL_LOCATIONS = [''nj'', ''ny'', ''pa''], ATOMIC_LOCATIONS = [''nj'', ''ny'', ''pa'']\<rparr>"

definition example_source_vi :: data_source where
  "example_source_vi =
     \<lparr>ALL_LOCATIONS = [''nj'', ''vi''], ATOMIC_LOCATIONS = [''nj'', ''ny'', ''pa'']\<rparr>"

definition no_reduce :: "matrix \<Rightarrow> matrix \<Rightarrow> error + (matrix \<times> matrix \<times> int list)" where
  "no_reduce H0 W0 = Inl (ExternalError ''reduce'')"

definition no_truth :: "string \<Rightarrow> location \<Rightarrow> epiweek \<Rightarrow> real option" where
  "no_truth target location ew = None"

definition ca_truth :: "string \<Rightarrow> location \<Rightarrow> epiweek \<Rightarrow> real option" where
  "ca_truth target location ew = (if location = ''ca'' \<and> ew = 201740 then Some (3 / 2) else None)"

definition empty_cache :: source_state where
  "empty_cache =
     \<lparr>ds_target = ''ov_datasetname2_per2'', ds_cache = Map.empty,
      ds_missing_memo = Map.empty\<rparr>"

text \<open>
  A source asked for the missing locations of week 201740 before any truth had arrived, and
  the same source after the value of \<open>ca\<close> for that week was added to its cache.
\<close>

definition asked_early :: source_state where
  "asked_early = snd (get_missing_locations no_truth empty_cache 201740)"

definition reported_late :: source_state where
  "reported_late =
     snd (add_to_cache asked_early ''datasetname_targets'' (ds_target asked_early) ''ca''
            201740 (Some (3 / 2)))"

text \<open>
  A calendar without year ends, enough for weeks inside one year: adding weeks is adding
  integers. A sensor that fails on one training week, and signals of one field.
\<close>

definition plain_calendar :: calendar where
  "plain_calendar =
     \<lparr>add_epiweeks = (\<lambda>ew n. ew + n), delta_epiweeks = (\<lambda>ew1 ew2. ew2 - ew1),
      range_epiweeks = (\<lambda>ew1 ew2. [ew1..ew2]),
      split_epiweek = (\<lambda>ew. (ew div 100, ew mod 100)), get_num_weeks = (\<lambda>y. 52)\<rparr>"

definition flaky_sensor :: sensor_impl where
  "flaky_sensor location ew valid target =
     (if ew = 201701 then Inl (SignalUnavailable ''ght'' 201702) else Inr (of_int (ew mod 100)))"

definition example_update :: sensor_update where
  "example_update =
     \<lparr>su_valid = False, su_implementations = [''ght'' \<mapsto> flaky_sensor], su_target = ''t''\<rparr>"

definition four_week_signal :: "(epiweek, real list) dict" where
  "four_week_signal = [(201701, [1]), (201702, [2]), (201703, [3]), (201704, [4])]"

definition four_week_truth :: "string \<Rightarrow> location \<Rightarrow> week_range \<Rightarrow> error + (epiweek \<times> real) list" where
  "four_week_truth target location weeks =
     Inr [(201701, 10), (201702, 20), (201703, 30), (201704, 40)]"

definition four_week_truth_relabelled ::
  "string \<Rightarrow> location \<Rightarrow> week_range \<Rightarrow> error + (epiweek \<times> real) list" where
  "four_week_truth_relabelled target location weeks =
     Inr [(201701, 10), (201702, 20), (201703, 30), (201704, 99)]"

definition value_rows :: "int list \<Rightarrow> signal_row list" where
  "value_rows ws = map (\<lambda>w. (201700 + w, [''value'' \<mapsto> of_int w])) ws"

definition value_signal :: "int list \<Rightarrow> (epiweek, real list) dict" where
  "value_signal ws = map (\<lambda>w. (201700 + w, [of_int w])) ws"

definition fetch_weeks :: "int list \<Rightarrow> week_range \<Rightarrow> error + signal_row list" where
  "fetch_weeks ws weeks = Inr (value_rows ws)"

definition no_targets :: "string \<Rightarrow> location \<Rightarrow> week_range \<Rightarrow> error + (epiweek \<times> real) list" where
  "no_targets target location weeks = Inr []"

definition no_wls :: "real list list \<Rightarrow> real list \<Rightarrow> real list \<Rightarrow> error + real list" where
  "no_wls X w Y = Inl (ExternalError ''singular matrix'')"










section \<open>The weight rows\<close>

lemma atom_population_outside:
  "set (remapped_atom_to_atoms atom) \<inter> set members = {} \<Longrightarrow> atom_population g members season atom = 0"
  by (auto simp: atom_population_def remapped_atom_to_atoms_def)

lemma check_atoms_known:
  "region_map g location = Some members \<Longrightarrow>
   check_atoms g location season atoms (t, ps) =
     Inr (t + sum_list (map (atom_population g members season) atoms),
          ps @ map (atom_population g members season) atoms)"
  by (induction atoms arbitrary: t ps) (simp_all add: Let_def add.assoc)

lemma sum_list_get_fraction:
  "t \<noteq> 0 \<Longrightarrow> sum_list (map (get_fraction t) ps) = Fract (int (sum_list ps)) (int t)"
  by (induction ps) (simp_all add: get_fraction_def Fract_of_int_quotient add_divide_distrib)

lemma get_weight_row_known:
  assumes "region_map g location = Some members"
  shows "get_weight_row g location season atoms =
     (let pops = map (atom_population g members season) atoms; total = sum_list pops
      in if total = 0 then Inl (EmptyLocation location) else Inr (map (get_fraction total) pops))"
  by (simp add: get_weight_row_def check_atoms_known [OF assms] Let_def)

lemmas example_simps = example_geo_def atom_population_def remapped_atom_to_atoms_def
  season_population_def

text \<open>
  Claim C1. For a location known to the geography with at least one atom of the given list
  contributing a nonzero population, \<open>get_weight_row\<close> returns a row of exact fractions: each
  weight is the atom's population within the location over the row total, the row sums to
  exactly 1, and an atom none of whose (remapped) units belongs to the location has weight 0.
\<close>

theorem get_weight_row_stochastic:
  assumes "region_map g location = Some members"
    and "\<exists>atom \<in> set atoms. atom_population g members season atom \<noteq> 0"
  shows "\<exists>row. get_weight_row g location season atoms = Inr row
     \<and> row = map (\<lambda>atom. Fract (int (atom_population g members season atom))
                 (int (sum_list (map (atom_population g members season) atoms)))) atoms
     \<and> sum_list row = 1
     \<and> (\<forall>i < length atoms.
           set (remapped_atom_to_atoms (atoms ! i)) \<inter> set members = {} \<longrightarrow> row ! i = 0)"
proof -
  let ?pop = "atom_population g members season"
  let ?total = "sum_list (map ?pop atoms)"
  from assms(2) have total: "?total \<noteq> 0"
    by (auto simp: sum_list_eq_0_iff)
  let ?row = "map (get_fraction ?total) (map ?pop atoms)"
  have ret: "get_weight_row g location season atoms = Inr ?row"
    using total by (simp add: get_weight_row_known [OF assms(1)] Let_def)
  have shape: "?row = map (\<lambda>atom. Fract (int (?pop atom)) (int ?total)) atoms"
    by (simp add: get_fraction_def)
  have one: "sum_list ?row = 1"
    using total sum_list_get_fraction [of ?total "map ?pop atoms"]
    by (simp add: Fract_of_int_quotient)
  have zero: "\<forall>i < length atoms.
      set (remapped_atom_to_atoms (atoms ! i)) \<inter> set members = {} \<longrightarrow> ?row ! i = 0"
    by (simp add: get_fraction_def atom_population_outside rat_number_collapse)
  show ?thesis using ret shape one zero by (intro exI [of _ ?row]) simp
qed

theorem get_weight_row_stochastic_witness:
  "region_map example_geo ''hhs2'' = Some [''nj'', ''ny_minus_jfk'', ''jfk'', ''pr'', ''vi'']
   \<and> (\<exists>atom \<in> set [''nj'', ''ny'', ''pa''].
         atom_population example_geo [''nj'', ''ny_minus_jfk'', ''jfk'', ''pr'', ''vi''] None atom \<noteq> 0)
   \<and> get_weight_row example_geo ''hhs2'' None [''nj'', ''ny'', ''pa'']
       = Inr [Fract 9 28, Fract 19 28, 0]
   \<and> sum_list [Fract 9 28, Fract 19 28, 0] = 1"
  using get_weight_row_stochastic [of example_geo "''hhs2''"
      "[''nj'', ''ny_minus_jfk'', ''jfk'', ''pr'', ''vi'']" "[''nj'', ''ny'', ''pa'']" None]
  by (simp add: example_simps rat_number_collapse)

section \<open>The statespace\<close>

text \<open>
  Claim C6. When \<open>exclude_locations\<close> and \<open>input_locations\<close> share an element,
  \<open>determine_statespace\<close> fails with the error of its first check, whatever the geography,
  the catalogues and the reduction are: no weight row is computed, the reduction is not
  called and nothing is returned.
\<close>

theorem determine_statespace_overlap:
  assumes "set exclude_locations \<inter> set input_locations \<noteq> {}"
  shows "determine_statespace g reduce to_float input_locations ds season exclude_locations
           = ([], Inl InputContainsExcluded)"
  using assms by (simp add: determine_statespace_def)

theorem determine_statespace_overlap_witness:
  "set [''pa''] \<inter> set [''nj'', ''pa''] \<noteq> {}
   \<and> determine_statespace example_geo no_reduce (of_rat :: rat \<Rightarrow> real) [''nj'', ''pa''] example_source None [''pa'']
       = ([], Inl InputContainsExcluded)"
  using determine_statespace_overlap [of "[''pa'']" "[''nj'', ''pa'']" example_geo no_reduce
      "of_rat :: rat \<Rightarrow> real" example_source None]
  by simp

lemma get_weight_matrix_fails:
  "loc \<in> set locations \<Longrightarrow> get_weight_row g loc season atoms = Inl e \<Longrightarrow>
   \<exists>e'. get_weight_matrix g locations season atoms = Inl e'"
  by (induction locations) (auto split: sum.splits)

text \<open>
  Claim C7. A location all of whose constituent atoms (after the remapping of \<open>ny\<close>) have
  zero population over the given atoms makes \<open>get_weight_row\<close> fail with the error that
  carries the location; a statespace request that needs the row of such a location, among
  its inputs or its output catalogue, ends in an error and returns no matrices.
\<close>

theorem empty_location_fails:
  assumes "region_map g location = Some members"
    and "\<forall>atom \<in> set atoms. atom_population g members season atom = 0"
  shows "get_weight_row g location season atoms = Inl (EmptyLocation location)
     \<and> (atoms = filter (\<lambda>a. a \<notin> set exclude_locations) (ATOMIC_LOCATIONS ds)
          \<and> location \<in> set input_locations
                \<union> set (filter (\<lambda>a. a \<notin> set exclude_locations) (ALL_LOCATIONS ds))
        \<longrightarrow> (\<exists>e. determine_statespace g reduce to_float input_locations ds season
                    exclude_locations = ([], Inl e)))"
proof -
  have row: "get_weight_row g location season atoms = Inl (EmptyLocation location)"
    using assms(2) by (simp add: get_weight_row_known [OF assms(1)] Let_def)
  have "\<exists>e. determine_statespace g reduce to_float input_locations ds season
                    exclude_locations = ([], Inl e)"
    if at: "atoms = filter (\<lambda>a. a \<notin> set exclude_locations) (ATOMIC_LOCATIONS ds)"
      and mem: "location \<in> set input_locations
                \<union> set (filter (\<lambda>a. a \<notin> set exclude_locations) (ALL_LOCATIONS ds))"
  proof (cases "set exclude_locations \<inter> set input_locations \<noteq> {}")
    case True
    then show ?thesis by (simp add: determine_statespace_def)
  next
    case False
    let ?all = "filter (\<lambda>a. a \<notin> set exclude_locations) (ALL_LOCATIONS ds)"
    show ?thesis
    proof (cases "get_weight_matrix g input_locations season atoms")
      case (Inl e)
      then show ?thesis using False at by (simp add: determine_statespace_def Let_def)
    next
      case (Inr H0)
      then have "location \<notin> set input_locations"
        using get_weight_matrix_fails [OF _ row, of input_locations] by auto
      then have "location \<in> set ?all" using mem by simp
      then obtain e' where "get_weight_matrix g ?all season atoms = Inl e'"
        using get_weight_matrix_fails [OF _ row] by blast
      then show ?thesis using False at Inr by (simp add: determine_statespace_def Let_def)
    qed
  qed
  then show ?thesis using row by blast
qed

theorem empty_location_fails_witness:
  "region_map example_geo ''vi'' = Some [''vi'']
   \<and> list_all (\<lambda>atom. atom_population example_geo [''vi''] None atom = 0) [''nj'', ''ny'', ''pa'']
   \<and> get_weight_row example_geo ''vi'' None [''nj'', ''ny'', ''pa''] = Inl (EmptyLocation ''vi'')
   \<and> [''nj'', ''ny'', ''pa''] = filter (\<lambda>a. a \<notin> set []) (ATOMIC_LOCATIONS example_source_vi)
   \<and> ''vi'' \<in> set [''nj''] \<union> set (filter (\<lambda>a. a \<notin> set []) (ALL_LOCATIONS example_source_vi))
   \<and> (\<exists>e. determine_statespace example_geo no_reduce (of_rat :: rat \<Rightarrow> real) [''nj''] example_source_vi None []
             = ([], Inl e))"
  using empty_location_fails [of example_geo "''vi''" "[''vi'']" "[''nj'', ''ny'', ''pa'']" None
      "[]" example_source_vi "[''nj'']" no_reduce "of_rat :: rat \<Rightarrow> real"]
  by (simp add: example_simps example_source_vi_def)

text \<open>
  Claim C2. When \<open>input_locations\<close> covers the atoms left by \<open>exclude_locations\<close>, the
  reduction is never called; and when the request is well formed (the two tuples are
  disjoint, and the rows of \<open>H0\<close> and \<open>W0\<close> exist) the call returns \<open>H0\<close>, \<open>W0\<close>, converted
  entry by entry at the return, and the filtered output catalogue unchanged.
\<close>

theorem determine_statespace_fast_path:
  assumes "set (filter (\<lambda>a. a \<notin> set exclude_locations) (ATOMIC_LOCATIONS ds)) \<subseteq> set input_locations"
  shows "fst (determine_statespace g reduce to_float input_locations ds season exclude_locations) = []
     \<and> (set exclude_locations \<inter> set input_locations = {}
        \<and> get_weight_matrix g input_locations season
             (filter (\<lambda>a. a \<notin> set exclude_locations) (ATOMIC_LOCATIONS ds)) = Inr H0
        \<and> get_weight_matrix g (filter (\<lambda>a. a \<notin> set exclude_locations) (ALL_LOCATIONS ds)) season
             (filter (\<lambda>a. a \<notin> set exclude_locations) (ATOMIC_LOCATIONS ds)) = Inr W0
        \<longrightarrow> determine_statespace g reduce to_float input_locations ds season exclude_locations
             = ([], Inr (astype to_float H0, astype to_float W0,
                         filter (\<lambda>a. a \<notin> set exclude_locations) (ALL_LOCATIONS ds))))"
  using assms by (simp add: determine_statespace_def Let_def split: sum.splits)

theorem determine_statespace_fast_path_witness:
  "set (filter (\<lambda>a. a \<notin> set []) (ATOMIC_LOCATIONS example_source)) \<subseteq> set [''nj'', ''ny'', ''pa'']
   \<and> set [] \<inter> set [''nj'', ''ny'', ''pa''] = {}
   \<and> get_weight_matrix example_geo [''nj'', ''ny'', ''pa''] None
        (filter (\<lambda>a. a \<notin> set []) (ATOMIC_LOCATIONS example_source)) = Inr [[1, 0, 0], [0, 1, 0], [0, 0, 1]]
   \<and> get_weight_matrix example_geo (filter (\<lambda>a. a \<notin> set []) (ALL_LOCATIONS example_source)) None
        (filter (\<lambda>a. a \<notin> set []) (ATOMIC_LOCATIONS example_source)) = Inr [[1, 0, 0], [0, 1, 0], [0, 0, 1]]
   \<and> determine_statespace example_geo no_reduce (of_rat :: rat \<Rightarrow> real) [''nj'', ''ny'', ''pa''] example_source None []
       = ([], Inr ([[1, 0, 0], [0, 1, 0], [0, 0, 1]], [[1, 0, 0], [0, 1, 0], [0, 0, 1]],
                   [''nj'', ''ny'', ''pa'']))"
proof -
  have row: "\<And>l m. region_map example_geo l = Some m \<Longrightarrow>
     get_weight_row example_geo l None [''nj'', ''ny'', ''pa''] =
       (let pops = map (atom_population example_geo m None) [''nj'', ''ny'', ''pa'']; total = sum_list pops
        in if total = 0 then Inl (EmptyLocation l) else Inr (map (get_fraction total) pops))"
    by (rule get_weight_row_known)
  have H: "get_weight_matrix example_geo [''nj'', ''ny'', ''pa''] None [''nj'', ''ny'', ''pa'']
      = Inr [[1, 0, 0], [0, 1, 0], [0, 0, 1]]"
    by (simp add: get_weight_row_def example_simps get_fraction_def Fract_of_int_quotient)
  show ?thesis
    using H determine_statespace_fast_path [where exclude_locations = "[]"
      and ds = example_source and input_locations = "[''nj'', ''ny'', ''pa'']" and g = example_geo
      and season = None and ?H0.0 = "[[1, 0, 0], [0, 1, 0], [0, 0, 1]]"
      and ?W0.0 = "[[1, 0, 0], [0, 1, 0], [0, 0, 1]]" and reduce = no_reduce
      and to_float = "of_rat :: rat \<Rightarrow> real"]
    by (simp add: example_source_def astype_def)
qed


section \<open>Missing locations\<close>

lemma get_truth_value_again:
  "fst (get_truth_value api (snd (get_truth_value api self ew l')) ew l) = fst (get_truth_value api self ew l)"
  by (auto simp: get_truth_value_def add_to_cache_def split: option.splits)

lemma get_truth_value_memo:
  "ds_missing_memo (snd (get_truth_value api self ew l)) = ds_missing_memo self"
  by (auto simp: get_truth_value_def add_to_cache_def split: option.splits)

lemma available_loop_filter:
  "fst (available_loop api self ew locs av) =
     av @ filter (\<lambda>loc. fst (get_truth_value api self ew loc) \<noteq> None) locs"
proof (induction locs arbitrary: self av)
  case Nil
  then show ?case by simp
next
  case (Cons l locs)
  obtain v self' where step: "get_truth_value api self ew l = (v, self')"
    by (cases "get_truth_value api self ew l")
  have same: "\<And>loc. fst (get_truth_value api self' ew loc) = fst (get_truth_value api self ew loc)"
    using get_truth_value_again [of api self ew l] step by simp
  show ?case
    using step by (cases v) (simp_all add: Cons.IH same)
qed

text \<open>Walking the atoms changes neither the truth values nor the table of kept results.\<close>

lemma available_loop_state:
  "fst (get_truth_value api (snd (available_loop api self ew locs av)) ew l)
     = fst (get_truth_value api self ew l)
   \<and> ds_missing_memo (snd (available_loop api self ew locs av)) = ds_missing_memo self"
proof (induction locs arbitrary: self av)
  case Nil
  then show ?case by simp
next
  case (Cons l' locs)
  obtain v self' where step: "get_truth_value api self ew l' = (v, self')"
    by (cases "get_truth_value api self ew l'")
  have same: "fst (get_truth_value api self' ew l) = fst (get_truth_value api self ew l)"
    using get_truth_value_again [of api self ew l' l] step by simp
  have memo: "ds_missing_memo self' = ds_missing_memo self"
    using get_truth_value_memo [of api self ew l'] step by simp
  show ?case
    using step by (cases v) (simp_all add: Cons.IH same memo)
qed

lemma available_locations_spec:
  "fst (available_loop api self ew (remdups DATASOURCE_ATOMIC_LOCATIONS) []) =
     filter (\<lambda>loc. fst (get_truth_value api self ew loc) \<noteq> None)
       (remdups DATASOURCE_ATOMIC_LOCATIONS)"
  using available_loop_filter [of api self ew "remdups DATASOURCE_ATOMIC_LOCATIONS" "[]"]
  by simp

lemma missing_locations_body_spec:
  "((\<forall>loc \<in> set DATASOURCE_ATOMIC_LOCATIONS. fst (get_truth_value api self ew loc) = None)
      \<longrightarrow> fst (missing_locations_body api self ew) = [])
   \<and> ((\<exists>loc \<in> set DATASOURCE_ATOMIC_LOCATIONS. fst (get_truth_value api self ew loc) \<noteq> None)
      \<longrightarrow> set (fst (missing_locations_body api self ew)) =
           {loc \<in> set DATASOURCE_ATOMIC_LOCATIONS. fst (get_truth_value api self ew loc) = None})"
proof -
  let ?atoms = "remdups DATASOURCE_ATOMIC_LOCATIONS"
  let ?has = "\<lambda>loc. fst (get_truth_value api self ew loc) \<noteq> None"
  obtain av self' where loop: "available_loop api self ew ?atoms [] = (av, self')"
    by (cases "available_loop api self ew ?atoms []")
  have av: "av = filter ?has ?atoms"
    using available_locations_spec [of api self ew] loop by simp
  have none: "fst (missing_locations_body api self ew) = []"
    if "\<forall>loc \<in> set DATASOURCE_ATOMIC_LOCATIONS. fst (get_truth_value api self ew loc) = None"
  proof -
    from that have "av = []" unfolding av by (simp add: filter_empty_conv)
    then show ?thesis using loop by (simp add: missing_locations_body_def Let_def)
  qed
  have some: "set (fst (missing_locations_body api self ew)) =
           {loc \<in> set DATASOURCE_ATOMIC_LOCATIONS. fst (get_truth_value api self ew loc) = None}"
    if "\<exists>loc \<in> set DATASOURCE_ATOMIC_LOCATIONS. fst (get_truth_value api self ew loc) \<noteq> None"
  proof -
    from that have "av \<noteq> []" unfolding av by (auto simp: filter_empty_conv)
    then have "fst (missing_locations_body api self ew) = filter (\<lambda>loc. loc \<notin> set av) ?atoms"
      using loop by (simp add: missing_locations_body_def Let_def)
    then show ?thesis unfolding av by auto
  qed
  show ?thesis using none some by blast
qed

lemma missing_locations_body_state:
  "fst (get_truth_value api (snd (missing_locations_body api self ew)) ew l)
     = fst (get_truth_value api self ew l)
   \<and> ds_missing_memo (snd (missing_locations_body api self ew)) = ds_missing_memo self"
proof -
  obtain av self' where loop:
    "available_loop api self ew (remdups DATASOURCE_ATOMIC_LOCATIONS) [] = (av, self')"
    by (cases "available_loop api self ew (remdups DATASOURCE_ATOMIC_LOCATIONS) []")
  then have "snd (missing_locations_body api self ew) = self'"
    by (simp add: missing_locations_body_def Let_def)
  then show ?thesis
    using available_loop_state [of api self ew "remdups DATASOURCE_ATOMIC_LOCATIONS" "[]" l] loop
    by simp
qed

lemma get_missing_locations_first:
  assumes "ds_missing_memo self ew = None"
  shows "fst (get_missing_locations api self ew) = fst (missing_locations_body api self ew)"
    and "ds_missing_memo (snd (get_missing_locations api self ew)) ew
           = Some (fst (missing_locations_body api self ew))"
  using assms by (simp_all add: get_missing_locations_def split: prod.splits)

text \<open>
  Claim C9, as amended. On the first call for an epiweek (no result kept yet):
  when no atomic location has a truth value on the epiweek, \<open>get_missing_locations\<close>
  returns the empty tuple; when at least one has a value, it returns exactly the atomic
  locations whose truth value is absent; and the result is kept. Every later call for that
  epiweek returns the kept result and leaves the object as it is.
\<close>

theorem get_missing_locations_spec:
  "(ds_missing_memo self ew = None \<longrightarrow>
      ((\<forall>loc \<in> set DATASOURCE_ATOMIC_LOCATIONS. fst (get_truth_value api self ew loc) = None)
         \<longrightarrow> fst (get_missing_locations api self ew) = [])
      \<and> ((\<exists>loc \<in> set DATASOURCE_ATOMIC_LOCATIONS. fst (get_truth_value api self ew loc) \<noteq> None)
         \<longrightarrow> set (fst (get_missing_locations api self ew)) =
              {loc \<in> set DATASOURCE_ATOMIC_LOCATIONS. fst (get_truth_value api self ew loc) = None})
      \<and> ds_missing_memo (snd (get_missing_locations api self ew)) ew
           = Some (fst (get_missing_locations api self ew)))
   \<and> (\<forall>kept. ds_missing_memo self ew = Some kept \<longrightarrow>
         get_missing_locations api self ew = (kept, self))"
proof -
  have hit: "\<forall>kept. ds_missing_memo self ew = Some kept \<longrightarrow>
         get_missing_locations api self ew = (kept, self)"
    by (simp add: get_missing_locations_def)
  show ?thesis
    using hit missing_locations_body_spec [of api self ew]
      get_missing_locations_first [of self ew api]
    by simp
qed

theorem get_missing_locations_spec_witness:
  "ds_missing_memo empty_cache 201750 = None
   \<and> \<not> (\<exists>loc \<in> set DATASOURCE_ATOMIC_LOCATIONS.
         fst (get_truth_value no_truth empty_cache 201750 loc) \<noteq> None)
   \<and> fst (get_missing_locations no_truth empty_cache 201750) = []
   \<and> ds_missing_memo empty_cache 201740 = None
   \<and> (\<exists>loc \<in> set DATASOURCE_ATOMIC_LOCATIONS.
         fst (get_truth_value ca_truth empty_cache 201740 loc) \<noteq> None)
   \<and> set (fst (get_missing_locations ca_truth empty_cache 201740)) =
       {loc \<in> set DATASOURCE_ATOMIC_LOCATIONS.
          fst (get_truth_value ca_truth empty_cache 201740 loc) = None}
   \<and> ''ca'' \<notin> set (fst (get_missing_locations ca_truth empty_cache 201740))
   \<and> ''ny'' \<in> set (fst (get_missing_locations ca_truth empty_cache 201740))
   \<and> ds_missing_memo asked_early 201740 = Some []
   \<and> get_missing_locations ca_truth asked_early 201740 = ([], asked_early)"
proof -
  have v: "\<And>loc. fst (get_truth_value ca_truth empty_cache 201740 loc) =
      (if loc = ''ca'' then Some (3 / 2) else None)"
    by (simp add: get_truth_value_def add_to_cache_def ca_truth_def empty_cache_def)
  have n: "\<And>loc ew. fst (get_truth_value no_truth empty_cache ew loc) = None"
    by (simp add: get_truth_value_def add_to_cache_def no_truth_def empty_cache_def)
  have m: "\<And>ew. ds_missing_memo empty_cache ew = None" by (simp add: empty_cache_def)
  have ca: "''ca'' \<in> set DATASOURCE_ATOMIC_LOCATIONS" and ny: "''ny'' \<in> set DATASOURCE_ATOMIC_LOCATIONS"
    by (simp_all add: DATASOURCE_ATOMIC_LOCATIONS_def)
  have ex: "\<exists>loc \<in> set DATASOURCE_ATOMIC_LOCATIONS.
         fst (get_truth_value ca_truth empty_cache 201740 loc) \<noteq> None"
    by (rule bexI [OF _ ca]) (simp add: v)
  have early: "ds_missing_memo asked_early 201740 = Some []"
    using get_missing_locations_spec [of empty_cache 201740 no_truth] n m
    by (simp add: asked_early_def)
  show ?thesis
    using get_missing_locations_spec [of empty_cache 201750 no_truth]
          get_missing_locations_spec [of empty_cache 201740 ca_truth]
          get_missing_locations_spec [of asked_early 201740 ca_truth] n m ex ca ny early
    by (simp add: v)
qed

text \<open>
  Claim C9 as stated fails on a repeated call. The source was asked for week 201740 when no
  location had reported, and kept the empty tuple; then the value of \<open>ca\<close> for that week
  entered its cache. Asked again, it has a truth value for \<open>ca\<close> and none for \<open>ny\<close>, and
  still answers with the empty tuple instead of the locations without a value.
\<close>

theorem get_missing_locations_replay:
  "''ca'' \<in> set DATASOURCE_ATOMIC_LOCATIONS
   \<and> fst (get_truth_value no_truth reported_late 201740 ''ca'') = Some (3 / 2)
   \<and> ''ny'' \<in> set DATASOURCE_ATOMIC_LOCATIONS
   \<and> fst (get_truth_value no_truth reported_late 201740 ''ny'') = None
   \<and> fst (get_missing_locations no_truth reported_late 201740) = []"
proof -
  have n: "\<And>loc ew. fst (get_truth_value no_truth empty_cache ew loc) = None"
    by (simp add: get_truth_value_def add_to_cache_def no_truth_def empty_cache_def)
  have m: "ds_missing_memo empty_cache 201740 = None" by (simp add: empty_cache_def)
  have early: "asked_early =
      (snd (missing_locations_body no_truth empty_cache 201740))
        \<lparr>ds_missing_memo := (ds_missing_memo (snd (missing_locations_body no_truth empty_cache 201740)))
           (201740 \<mapsto> fst (missing_locations_body no_truth empty_cache 201740))\<rparr>"
    using m by (simp add: asked_early_def get_missing_locations_def split: prod.splits)
  have body: "fst (missing_locations_body no_truth empty_cache 201740) = []"
    using missing_locations_body_spec [of no_truth empty_cache 201740] n by simp
  let ?s = "snd (missing_locations_body no_truth empty_cache 201740)"
  have ny_s: "fst (get_truth_value no_truth ?s 201740 ''ny'') = None"
    using missing_locations_body_state [of no_truth empty_cache 201740 "''ny''"] n by simp
  have memo: "ds_missing_memo reported_late 201740 = Some []"
    by (simp add: reported_late_def add_to_cache_def early body)
  have ca_v: "fst (get_truth_value no_truth reported_late 201740 ''ca'') = Some (3 / 2)"
    by (simp add: reported_late_def add_to_cache_def get_truth_value_def early)
  have "fst (get_truth_value no_truth reported_late 201740 ''ny'')
      = fst (get_truth_value no_truth ?s 201740 ''ny'')"
    by (simp add: reported_late_def add_to_cache_def get_truth_value_def early no_truth_def
          split: option.splits)
  then have ny_v: "fst (get_truth_value no_truth reported_late 201740 ''ny'') = None"
    using ny_s by simp
  have "fst (get_missing_locations no_truth reported_late 201740) = []"
    using memo by (simp add: get_missing_locations_def)
  then show ?thesis
    using ca_v ny_v by (simp add: DATASOURCE_ATOMIC_LOCATIONS_def)
qed

section \<open>The orchestrator\<close>

lemma update_single_failed:
  assumes "su_implementations self name = Some impl"
    and "impl location (add_epiweeks cal test_week (- 1)) (su_valid self) (su_target self) = Inl ex"
  shows "update_single cal db_insert self (database, out) test_week name location
           = Inr (database, out @ [Failed name location test_week ex])"
  using assms by (simp add: update_single_def)

lemma update_single_produced:
  assumes "su_implementations self name = Some impl"
    and "impl location (add_epiweeks cal test_week (- 1)) (su_valid self) (su_target self) = Inr v"
  shows "update_single cal db_insert self (database, out) test_week name location
           = (case db_insert database (su_target self, name, location, test_week, v) of
                Inl e \<Rightarrow> Inl e
              | Inr database' \<Rightarrow> Inr (database', out @ [Updated name location test_week v]))"
  using assms by (simp add: update_single_def)

lemma update_weeks_recording:
  assumes "su_implementations self name = Some impl"
  shows "\<exists>out'. update_weeks cal recording_insert self (rows, out) weeks name location
           = Inr (rows @ List.map_filter (produced cal self impl name location) weeks, out')
         \<and> length out' = length out + length weeks"
proof (induction weeks arbitrary: rows out)
  case Nil
  then show ?case by (simp add: List.map_filter_simps)
next
  case (Cons w weeks)
  show ?case
  proof (cases "impl location (add_epiweeks cal w (- 1)) (su_valid self) (su_target self)")
    case (Inl ex)
    then show ?thesis
      using Cons.IH [of rows "out @ [Failed name location w ex]"]
      by (simp add: update_single_failed [OF assms Inl] produced_def List.map_filter_simps)
  next
    case (Inr v)
    then show ?thesis
      using Cons.IH [of "rows @ [(su_target self, name, location, w, v)]"
                        "out @ [Updated name location w v]"]
      by (simp add: update_single_produced [OF assms Inr] produced_def List.map_filter_simps
            recording_insert_def)
  qed
qed

text \<open>
  Claim C8. In a step of the update loop for a known sensor, an error raised by the
  implementation is caught and printed, nothing is inserted and the loop goes on with the
  next week; a returned value is passed to \<open>insert\<close>. Over a whole range of weeks, with a
  persistence layer that records its calls, the loop ends normally, prints one line for
  each week and has inserted exactly the readings of the weeks whose implementation
  returned, in order.
\<close>

theorem update_single_catches:
  assumes "su_implementations self name = Some impl"
  shows "(\<forall>ex. impl location (add_epiweeks cal test_week (- 1)) (su_valid self) (su_target self)
              = Inl ex \<longrightarrow>
            update_single cal db_insert self (database, out) test_week name location
              = Inr (database, out @ [Failed name location test_week ex])
            \<and> update_weeks cal db_insert self (database, out) (test_week # weeks) name location
              = update_weeks cal db_insert self
                  (database, out @ [Failed name location test_week ex]) weeks name location)
     \<and> (\<forall>v. impl location (add_epiweeks cal test_week (- 1)) (su_valid self) (su_target self)
              = Inr v \<longrightarrow>
            update_single cal db_insert self (database, out) test_week name location
              = (case db_insert database (su_target self, name, location, test_week, v) of
                   Inl e \<Rightarrow> Inl e
                 | Inr database' \<Rightarrow> Inr (database', out @ [Updated name location test_week v])))
     \<and> (\<exists>out'. update_weeks cal recording_insert self (rows, out) all_weeks name location
              = Inr (rows @ List.map_filter (produced cal self impl name location) all_weeks, out')
            \<and> length out' = length out + length all_weeks)"
  using update_weeks_recording [OF assms, of cal rows out all_weeks location]
  by (simp add: update_single_failed [OF assms] update_single_produced [OF assms])

theorem update_single_catches_witness:
  "su_implementations example_update ''ght'' = Some flaky_sensor
   \<and> flaky_sensor ''ca'' (add_epiweeks plain_calendar 201702 (- 1)) False ''t''
       = Inl (SignalUnavailable ''ght'' 201702)
   \<and> update_single plain_calendar recording_insert example_update ([], []) 201702 ''ght'' ''ca''
       = Inr ([], [Failed ''ght'' ''ca'' 201702 (SignalUnavailable ''ght'' 201702)])
   \<and> flaky_sensor ''ca'' (add_epiweeks plain_calendar 201703 (- 1)) False ''t'' = Inr 2
   \<and> update_single plain_calendar recording_insert example_update ([], []) 201703 ''ght'' ''ca''
       = Inr ([(''t'', ''ght'', ''ca'', 201703, 2)], [Updated ''ght'' ''ca'' 201703 2])
   \<and> update_weeks plain_calendar recording_insert example_update ([], [])
        [201702, 201703, 201704] ''ght'' ''ca''
       = Inr ([(''t'', ''ght'', ''ca'', 201703, 2), (''t'', ''ght'', ''ca'', 201704, 3)],
              [Failed ''ght'' ''ca'' 201702 (SignalUnavailable ''ght'' 201702),
               Updated ''ght'' ''ca'' 201703 2, Updated ''ght'' ''ca'' 201704 3])"
proof -
  have impl: "su_implementations example_update ''ght'' = Some flaky_sensor"
    by (simp add: example_update_def)
  note step = update_single_catches [OF impl, where cal = plain_calendar and location = "''ca''"
      and db_insert = recording_insert and database = "[]" and out = "[]" and rows = "[]"
      and weeks = "[]" and all_weeks = "[201702, 201703, 201704]"]
  show ?thesis
    using step [where test_week = 201702] step [where test_week = 201703]
    by (simp add: example_update_def flaky_sensor_def plain_calendar_def recording_insert_def
          update_single_def)
qed


section \<open>The loch-ness fit\<close>

lemma align_loop_keys:
  "ew3 \<notin> fst ` set data \<Longrightarrow>
   ew3 \<notin> fst ` set (fst (align_loop cal shift ew3 groundTruth signal (data, dropped)))"
proof (induction signal arbitrary: data dropped)
  case Nil
  then show ?case by simp
next
  case (Cons p signal)
  obtain signal_week sig where p: "p = (signal_week, sig)" by (cases p)
  show ?case
  proof (cases "add_epiweeks cal signal_week shift = ew3")
    case True
    then show ?thesis using Cons p by simp
  next
    case False
    show ?thesis
    proof (cases "groundTruth (add_epiweeks cal signal_week shift)")
      case None
      then show ?thesis using Cons p False by (simp add: Let_def)
    next
      case (Some label)
      have "ew3 \<notin> fst ` set (AList.update (add_epiweeks cal signal_week shift) (sig, label) data)"
        using Cons.prems False by (simp add: dom_update)
      then show ?thesis using Cons.IH p False Some by (simp add: Let_def)
    qed
  qed
qed

lemma lookup_each_keys:
  "set ks \<subseteq> fst ` set data \<Longrightarrow> \<exists>vs. lookup_each data ks = Inr vs \<and> length vs = length ks"
proof (induction ks)
  case Nil
  then show ?case by simp
next
  case (Cons k ks)
  then obtain vs where vs: "lookup_each data ks = Inr vs" "length vs = length ks" by auto
  from Cons.prems have "k \<in> fst ` set data" by simp
  then obtain v where "map_of data k = Some v"
    by (metis domD dom_map_of_conv_image_fst)
  then show ?case using vs by simp
qed

lemma update_entries: "set (AList.update k v al) \<subseteq> insert (k, v) (set al)"
  by (induction al) auto

text \<open>
  Every pair that the loop puts into \<open>data\<close> is keyed by a week other than the week to
  predict, carries the ground truth of that very week as its label, and a value of the
  signal whose shifted week it is as its covariate.
\<close>

lemma align_loop_pairs:
  assumes "set signal \<subseteq> set whole"
    and "\<forall>(k, x, y) \<in> set data. k \<noteq> ew3 \<and> groundTruth k = Some y
           \<and> (\<exists>sw. (sw, x) \<in> set whole \<and> add_epiweeks cal sw shift = k)"
  shows "\<forall>(k, x, y) \<in> set (fst (align_loop cal shift ew3 groundTruth signal (data, dropped))).
           k \<noteq> ew3 \<and> groundTruth k = Some y
           \<and> (\<exists>sw. (sw, x) \<in> set whole \<and> add_epiweeks cal sw shift = k)"
  using assms
proof (induction signal arbitrary: data dropped)
  case Nil
  then show ?case by simp
next
  case (Cons p signal)
  obtain signal_week sig where p: "p = (signal_week, sig)" by (cases p)
  have sub: "set signal \<subseteq> set whole" and here: "(signal_week, sig) \<in> set whole"
    using Cons.prems(1) p by auto
  let ?g = "add_epiweeks cal signal_week shift"
  show ?case
  proof (cases "?g = ew3")
    case True
    then show ?thesis using Cons.IH [OF sub Cons.prems(2)] p by simp
  next
    case False
    show ?thesis
    proof (cases "groundTruth ?g")
      case None
      then show ?thesis using Cons.IH [OF sub Cons.prems(2)] p False by (simp add: Let_def)
    next
      case (Some label)
      have "\<forall>(k, x, y) \<in> set (AList.update ?g (sig, label) data).
              k \<noteq> ew3 \<and> groundTruth k = Some y
              \<and> (\<exists>sw. (sw, x) \<in> set whole \<and> add_epiweeks cal sw shift = k)"
        using Cons.prems(2) False Some here update_entries [of ?g "(sig, label)" data]
        by fastforce
      from Cons.IH [OF sub this] show ?thesis using p False Some by (simp add: Let_def)
    qed
  qed
qed

text \<open>The loop never reads the ground truth of the week to predict.\<close>

lemma align_loop_independent:
  assumes "\<forall>w. w \<noteq> ew3 \<longrightarrow> groundTruth' w = groundTruth w"
  shows "align_loop cal shift ew3 groundTruth' signal acc
           = align_loop cal shift ew3 groundTruth signal acc"
proof (induction signal arbitrary: acc)
  case Nil
  then show ?case by simp
next
  case (Cons p signal)
  obtain signal_week sig where p: "p = (signal_week, sig)" by (cases p)
  obtain data dropped where acc: "acc = (data, dropped)" by (cases acc)
  show ?case
  proof (cases "add_epiweeks cal signal_week shift = ew3")
    case True
    then show ?thesis using Cons.IH by (simp add: p acc)
  next
    case False
    then have "groundTruth' (add_epiweeks cal signal_week shift)
        = groundTruth (add_epiweeks cal signal_week shift)"
      using assms by simp
    then show ?thesis
      using False Cons.IH by (simp add: p acc Let_def split: option.splits)
  qed
qed

lemma lookup_each_values:
  "lookup_each data ks = Inr vs \<Longrightarrow>
   length vs = length ks \<and> (\<forall>k < length ks. map_of data (ks ! k) = Some (vs ! k))"
proof (induction ks arbitrary: vs)
  case Nil
  then show ?case by simp
next
  case (Cons a ks)
  from Cons.prems obtain v vs' where v: "map_of data a = Some v"
      and rest: "lookup_each data ks = Inr vs'" and vs: "vs = v # vs'"
    by (auto split: option.splits sum.splits)
  from Cons.IH [OF rest] have ih: "length vs' = length ks"
      "\<forall>k < length ks. map_of data (ks ! k) = Some (vs' ! k)"
    by simp_all
  show ?case
    using v vs ih by (auto simp: nth_Cons split: nat.splits)
qed

text \<open>
  Claim C10. Whenever the ground truth could be fetched, \<open>get_training_set_datasetname\<close>
  returns a training set in which the week to predict (the week after the given epiweek) is
  not among the ground-truth weeks, every label is the ground truth of its own week and
  every covariate a value of the signal shifted onto that week; and the training set is the
  same for any other ground truth that differs on the week to predict only: the label of
  the predicted week is never used.
\<close>

theorem training_set_skips_target:
  assumes "datasetname_targets target location (199301, ew) = Inr rows"
  shows "\<exists>epiweeks X Y.
           get_training_set_datasetname cal datasetname_targets location ew signal target shift
             = Inr (epiweeks, X, Y)
           \<and> add_epiweeks cal ew 1 \<notin> set epiweeks
           \<and> length X = length epiweeks \<and> length Y = length epiweeks
           \<and> (\<forall>k < length epiweeks.
                 ground_truth_dict rows (epiweeks ! k) = Some (Y ! k)
                 \<and> (\<exists>signal_week. (signal_week, X ! k) \<in> set signal
                       \<and> add_epiweeks cal signal_week shift = epiweeks ! k))
           \<and> (\<forall>other_targets rows'.
                 other_targets target location (199301, ew) = Inr rows'
                 \<and> (\<forall>w. w \<noteq> add_epiweeks cal ew 1
                        \<longrightarrow> ground_truth_dict rows' w = ground_truth_dict rows w)
                 \<longrightarrow> get_training_set_datasetname cal other_targets location ew signal target shift
                     = get_training_set_datasetname cal datasetname_targets location ew signal
                         target shift)"
proof -
  let ?ew3 = "add_epiweeks cal ew 1"
  let ?gt = "ground_truth_dict rows"
  obtain data dropped where al:
    "align_loop cal shift ?ew3 ?gt signal ([], 0) = (data, dropped)"
    by (cases "align_loop cal shift ?ew3 ?gt signal ([], 0)")
  have keys: "?ew3 \<notin> fst ` set data"
    using align_loop_keys [of ?ew3 "[]" cal shift ?gt signal 0] al by simp
  have pairs: "\<forall>(k, x, y) \<in> set data. k \<noteq> ?ew3 \<and> ?gt k = Some y
           \<and> (\<exists>sw. (sw, x) \<in> set signal \<and> add_epiweeks cal sw shift = k)"
    using align_loop_pairs [of signal signal "[]" ?ew3 ?gt cal shift 0] al by simp
  let ?epiweeks = "sort (map fst data)"
  obtain xys where xys: "lookup_each data ?epiweeks = Inr xys" "length xys = length ?epiweeks"
    using lookup_each_keys [of ?epiweeks data] by auto
  have ret: "get_training_set_datasetname cal datasetname_targets location ew signal target shift
          = Inr (?epiweeks, map fst xys, map snd xys)"
    using assms al xys by (simp add: get_training_set_datasetname_def get_weeks_def Let_def)
  have skipped: "?ew3 \<notin> set ?epiweeks" using keys by simp
  have labelled: "?gt (?epiweeks ! k) = Some (map snd xys ! k)
      \<and> (\<exists>signal_week. (signal_week, map fst xys ! k) \<in> set signal
            \<and> add_epiweeks cal signal_week shift = ?epiweeks ! k)"
    if k: "k < length ?epiweeks" for k
  proof -
    have "map_of data (?epiweeks ! k) = Some (xys ! k)"
      using lookup_each_values [OF xys(1)] k by simp
    then have "(?epiweeks ! k, fst (xys ! k), snd (xys ! k)) \<in> set data"
      by (simp add: map_of_SomeD)
    then have "?gt (?epiweeks ! k) = Some (snd (xys ! k))
        \<and> (\<exists>sw. (sw, fst (xys ! k)) \<in> set signal \<and> add_epiweeks cal sw shift = ?epiweeks ! k)"
      using pairs by fastforce
    then show ?thesis using k xys(2) by simp
  qed
  have unused: "get_training_set_datasetname cal other_targets location ew signal target shift
        = get_training_set_datasetname cal datasetname_targets location ew signal target shift"
    if o: "other_targets target location (199301, ew) = Inr rows'"
      and same: "\<forall>w. w \<noteq> ?ew3 \<longrightarrow> ground_truth_dict rows' w = ?gt w"
    for other_targets rows'
  proof -
    have "align_loop cal shift ?ew3 (ground_truth_dict rows') signal ([], 0)
        = align_loop cal shift ?ew3 ?gt signal ([], 0)"
      using same by (rule align_loop_independent)
    then show ?thesis
      using o assms by (simp add: get_training_set_datasetname_def get_weeks_def Let_def)
  qed
  have lenX: "length (map fst xys) = length ?epiweeks"
    and lenY: "length (map snd xys) = length ?epiweeks"
    using xys(2) by simp_all
  have lab: "\<forall>k < length ?epiweeks.
      ?gt (?epiweeks ! k) = Some (map snd xys ! k)
      \<and> (\<exists>signal_week. (signal_week, map fst xys ! k) \<in> set signal
            \<and> add_epiweeks cal signal_week shift = ?epiweeks ! k)"
    using labelled by blast
  have unused_all: "\<forall>other_targets rows'.
      other_targets target location (199301, ew) = Inr rows'
      \<and> (\<forall>w. w \<noteq> ?ew3 \<longrightarrow> ground_truth_dict rows' w = ?gt w)
      \<longrightarrow> get_training_set_datasetname cal other_targets location ew signal target shift
          = get_training_set_datasetname cal datasetname_targets location ew signal target shift"
    using unused by blast
  show ?thesis
    by (rule exI [of _ ?epiweeks], rule exI [of _ "map fst xys"], rule exI [of _ "map snd xys"],
        intro conjI)
       (rule ret skipped lenX lenY lab unused_all)+
qed

theorem training_set_skips_target_witness:
  "four_week_truth ''t'' ''ca'' (199301, 201703) = Inr [(201701, 10), (201702, 20), (201703, 30), (201704, 40)]
   \<and> get_training_set_datasetname plain_calendar four_week_truth ''ca'' 201703 four_week_signal ''t'' 0
       = Inr ([201701, 201702, 201703], [[1], [2], [3]], [10, 20, 30])
   \<and> add_epiweeks plain_calendar 201703 1 = 201704
   \<and> 201704 \<notin> set [201701, 201702, 201703 :: int]
   \<and> four_week_truth_relabelled ''t'' ''ca'' (199301, 201703)
       = Inr [(201701, 10), (201702, 20), (201703, 30), (201704, 99)]
   \<and> get_training_set_datasetname plain_calendar four_week_truth_relabelled ''ca'' 201703
        four_week_signal ''t'' 0
       = Inr ([201701, 201702, 201703], [[1], [2], [3]], [10, 20, 30])"
proof -
  have same: "\<forall>w. w \<noteq> add_epiweeks plain_calendar 201703 1 \<longrightarrow>
      ground_truth_dict [(201701, 10), (201702, 20), (201703, 30), (201704, 99)] w
        = ground_truth_dict [(201701, 10), (201702, 20), (201703, 30), (201704, 40)] w"
    by (simp add: ground_truth_dict_def plain_calendar_def)
  have first: "get_training_set_datasetname plain_calendar four_week_truth ''ca'' 201703
        four_week_signal ''t'' 0 = Inr ([201701, 201702, 201703], [[1], [2], [3]], [10, 20, 30])"
    by (simp add: four_week_truth_def get_training_set_datasetname_def get_weeks_def
        plain_calendar_def four_week_signal_def ground_truth_dict_def)
  have a: "four_week_truth ''t'' ''ca'' (199301, 201703)
      = Inr [(201701, 10), (201702, 20), (201703, 30), (201704, 40)]"
    by (simp add: four_week_truth_def)
  have b: "four_week_truth_relabelled ''t'' ''ca'' (199301, 201703)
      = Inr [(201701, 10), (201702, 20), (201703, 30), (201704, 99)]"
    by (simp add: four_week_truth_relabelled_def)
  from training_set_skips_target [where datasetname_targets = four_week_truth
      and target = "''t''" and location = "''ca''" and ew = 201703
      and rows = "[(201701, 10), (201702, 20), (201703, 30), (201704, 40)]"
      and cal = plain_calendar and signal = four_week_signal and shift = 0, OF a]
  have "get_training_set_datasetname plain_calendar four_week_truth_relabelled ''ca'' 201703
        four_week_signal ''t'' 0
      = get_training_set_datasetname plain_calendar four_week_truth ''ca'' 201703
        four_week_signal ''t'' 0"
    using b same by blast
  then show ?thesis using first a b by (simp add: plain_calendar_def)
qed

lemma extract_loop_distinct:
  "distinct (map fst data) \<Longrightarrow> extract_loop cal rows fl shift data = Inr signal \<Longrightarrow>
   distinct (map fst signal)"
proof (induction rows arbitrary: data)
  case Nil
  then show ?case by simp
next
  case (Cons r rows)
  obtain ew row where r: "r = (ew, row)" by (cases r)
  from Cons.prems(2) r obtain vs where
    rest: "extract_loop cal rows fl shift (AList.update (add_epiweeks cal ew shift) vs data) = Inr signal"
    by (auto split: sum.splits)
  have "distinct (map fst (AList.update (add_epiweeks cal ew shift) vs data))"
    using Cons.prems(1) by (rule distinct_update)
  then show ?case using rest by (rule Cons.IH)
qed

text \<open>
  Claim C5. In a call of \<open>fit_loch_ness\<close> whose signal has a value on the target week, the
  observations are counted by the weeks of the signal; with fewer than
  \<open>max(10 * len(fields), 52)\<close> of them the call fails with the error on the signal's
  history, and with at least that many it goes on to the alignment with the labels, its
  result being the rest of the fit applied to the outcome of the alignment.
\<close>

theorem fit_loch_ness_signal_history:
  assumes "fetch (199301, add_epiweeks cal ew 1) = Inr rows"
    and "field_list = (case fields_in of Field f \<Rightarrow> [f] | Fields fs \<Rightarrow> fs)"
    and "extract_signal cal rows field_list shift = Inr signal"
    and "map_of signal (add_epiweeks cal ew 1) = Some target_values"
  shows "length signal = card (fst ` set signal)
     \<and> (length signal < max (10 * length field_list) 52 \<longrightarrow>
          fit_loch_ness cal wls datasetname_targets location ew name fields_in fetch valid target shift
            = Inl (SignalTooShort name (max (10 * length field_list) 52)))
     \<and> (max (10 * length field_list) 52 \<le> length signal \<longrightarrow>
          fit_loch_ness cal wls datasetname_targets location ew name fields_in fetch valid target shift
            = fit_aligned cal wls (add_epiweeks cal ew 1) (max (10 * length field_list) 52)
                target_values
                (get_training_set_datasetname cal datasetname_targets location ew signal target shift))"
proof -
  let ?m = "max (10 * length field_list) 52"
  let ?fit = "fit_loch_ness cal wls datasetname_targets location ew name fields_in fetch valid target shift"
  have "distinct (map fst signal)"
    using extract_loop_distinct [of "[]" cal rows field_list shift signal] assms(3)
    by (simp add: extract_signal_def)
  then have count: "length signal = card (fst ` set signal)"
    by (metis distinct_card length_map set_map)
  have unfolded: "?fit =
      (if length signal < ?m then Inl (SignalTooShort name ?m)
       else fit_aligned cal wls (add_epiweeks cal ew 1) ?m target_values
              (get_training_set_datasetname cal datasetname_targets location ew signal target shift))"
    using assms by (simp add: fit_loch_ness_def get_weeks_def Let_def)
  have short: "?fit = Inl (SignalTooShort name ?m)" if "length signal < ?m"
    using that by (simp only: unfolded if_True)
  have enough: "?fit = fit_aligned cal wls (add_epiweeks cal ew 1) ?m target_values
              (get_training_set_datasetname cal datasetname_targets location ew signal target shift)"
    if "?m \<le> length signal"
  proof -
    from that have "\<not> length signal < ?m" by (simp only: not_less)
    then show ?thesis by (simp only: unfolded if_False)
  qed
  show ?thesis using count short enough by blast
qed

lemma extract_loop_value_rows:
  "distinct ws \<Longrightarrow> set ws \<inter> (\<lambda>p. fst p - 201700) ` set data = {} \<Longrightarrow>
   extract_loop plain_calendar (value_rows ws) [''value''] 0 data = Inr (data @ value_signal ws)"
proof (induction ws arbitrary: data)
  case Nil
  then show ?case by (simp add: value_rows_def value_signal_def)
next
  case (Cons w ws)
  have fresh: "201700 + w \<notin> fst ` set data"
    using Cons.prems(2) by force
  have upd: "AList.update (201700 + w) [of_int w] data = data @ [(201700 + w, [of_int w])]"
    using fresh by (induction data) auto
  have "extract_loop plain_calendar (value_rows ws) [''value''] 0 (data @ [(201700 + w, [of_int w])])
      = Inr ((data @ [(201700 + w, [of_int w])]) @ value_signal ws)"
    using Cons.prems by (intro Cons.IH) (auto simp: image_Un)
  then show ?case
    using upd by (simp add: value_rows_def value_signal_def plain_calendar_def)
qed

lemma extract_value_rows:
  "distinct ws \<Longrightarrow> extract_signal plain_calendar (value_rows ws) [''value''] 0 = Inr (value_signal ws)"
  using extract_loop_value_rows [of ws "[]"] by (simp add: extract_signal_def)

lemma align_loop_no_truth:
  "align_loop cal shift ew3 Map.empty signal (data, dropped)
     = (data, dropped + length (filter (\<lambda>p. add_epiweeks cal (fst p) shift \<noteq> ew3) signal))"
  by (induction signal arbitrary: dropped) (auto simp: Let_def)

theorem fit_loch_ness_signal_history_witness:
  "fetch_weeks [1..4] (199301, add_epiweeks plain_calendar 201703 1) = Inr (value_rows [1..4])
   \<and> extract_signal plain_calendar (value_rows [1..4]) [''value''] 0 = Inr (value_signal [1..4])
   \<and> map_of (value_signal [1..4]) (add_epiweeks plain_calendar 201703 1) = Some [4]
   \<and> length (value_signal [1..4]) < max (10 * length [''value'']) 52
   \<and> fit_loch_ness plain_calendar no_wls no_targets ''ca'' 201703 ''ght'' (Field ''value'')
        (fetch_weeks [1..4]) False ''t'' 0 = Inl (SignalTooShort ''ght'' 52)
   \<and> fetch_weeks [1..52] (199301, add_epiweeks plain_calendar 201751 1) = Inr (value_rows [1..52])
   \<and> extract_signal plain_calendar (value_rows [1..52]) [''value''] 0 = Inr (value_signal [1..52])
   \<and> map_of (value_signal [1..52]) (add_epiweeks plain_calendar 201751 1) = Some [52]
   \<and> max (10 * length [''value'']) 52 \<le> length (value_signal [1..52])
   \<and> fit_loch_ness plain_calendar no_wls no_targets ''ca'' 201751 ''ght'' (Field ''value'')
        (fetch_weeks [1..52]) False ''t'' 0 = Inl (TargetsTooShort 51)"
proof -
  have m: "\<And>ws w. w \<in> set ws \<Longrightarrow> distinct ws \<Longrightarrow> map_of (value_signal ws) (201700 + w) = Some [of_int w]"
    by (rule map_of_is_SomeI) (auto simp: value_signal_def distinct_map inj_on_def)
  have m4: "map_of (value_signal [1..4]) (add_epiweeks plain_calendar 201703 1) = Some [4]"
    using m [of 4 "[1..4]"] by (simp add: plain_calendar_def)
  have m52: "map_of (value_signal [1..52]) (add_epiweeks plain_calendar 201751 1) = Some [52]"
    using m [of 52 "[1..52]"] by (simp add: plain_calendar_def)
  have ts: "get_training_set_datasetname plain_calendar no_targets ''ca'' 201751
      (value_signal [1..52]) ''t'' 0 = Inr ([], [], [])"
    by (simp add: get_training_set_datasetname_def get_weeks_def no_targets_def
          ground_truth_dict_def align_loop_no_truth)
  note a = fit_loch_ness_signal_history [where cal = plain_calendar and fetch = "fetch_weeks [1..4]"
      and ew = 201703 and rows = "value_rows [1..4]" and fields_in = "Field ''value''"
      and field_list = "[''value'']" and shift = 0 and signal = "value_signal [1..4]"
      and target_values = "[4]" and wls = no_wls and datasetname_targets = no_targets
      and location = "''ca''" and name = "''ght''" and valid = False and target = "''t''"]
  note b = fit_loch_ness_signal_history [where cal = plain_calendar and fetch = "fetch_weeks [1..52]"
      and ew = 201751 and rows = "value_rows [1..52]" and fields_in = "Field ''value''"
      and field_list = "[''value'']" and shift = 0 and signal = "value_signal [1..52]"
      and target_values = "[52]" and wls = no_wls and datasetname_targets = no_targets
      and location = "''ca''" and name = "''ght''" and valid = False and target = "''t''"]
  show ?thesis
    using a b m4 m52 ts
    by (simp add: fetch_weeks_def extract_value_rows fit_aligned_def value_signal_def)
qed

section \<open>The fixed-feature regression\<close>


lemma get_features_error:
  "get_features cal self ew = Inl e \<Longrightarrow> e = KeyError \<or> e = ZeroDivisionError"
  by (auto simp: get_features_def Let_def split: option.splits prod.splits if_splits)






subsection \<open>The object built by the constructor\<close>

























section \<open>The kernel weight\<close>

lemma py_fmod_small:
  assumes "0 \<le> x" "x < y"
  shows "py_fmod x y = x"
proof -
  have "\<lfloor>x / y\<rfloor> = 0"
    using assms by (intro floor_unique) simp_all
  then show ?thesis by (simp add: py_fmod_def)
qed

lemma exp_neg_bound: "0 \<le> x \<Longrightarrow> exp (- x) \<le> 1 / (1 + x)" for x :: real
proof -
  assume x: "0 \<le> x"
  have "1 + x \<le> exp x" by (rule exp_ge_add_one_self)
  then have "1 / exp x \<le> 1 / (1 + x)" using x by (intro divide_left_mono) simp_all
  then show ?thesis by (simp add: exp_minus')
qed

lemma two_powr_neg_le: "0 \<le> x \<Longrightarrow> 2 powr (- x) \<le> (1::real)"
  using powr_mono [of "- x" 0 2] by simp

lemma two_powr_neg_ge_half: "x \<le> 1 \<Longrightarrow> 1 / 2 \<le> 2 powr (- x)" for x :: real
  using powr_mono [of "- 1" "- x" 2] by (simp add: powr_minus_divide)

lemma two_powr_neg_le_half: "1 \<le> x \<Longrightarrow> 2 powr (- x) \<le> 1 / 2" for x :: real
  using powr_mono [of "- x" "- 1" 2] by (simp add: powr_minus_divide)

lemma product_upper:
  fixes f c d :: real
  assumes "0 \<le> f" "f \<le> F" "0 \<le> c" "c \<le> 1" "0 \<le> d" "d \<le> 1"
  shows "f * c * d \<le> F"
proof -
  have "f * c \<le> F * 1" using assms by (intro mult_mono) simp_all
  then have "f * c * d \<le> F * 1 * 1" using assms by (intro mult_mono) simp_all
  then show ?thesis by simp
qed

lemma product_lower:
  fixes f c d :: real
  assumes "0 \<le> F" "F \<le> f" "0 \<le> C" "C \<le> c" "0 \<le> D" "D \<le> d"
  shows "F * C * D \<le> f * c * d"
proof -
  have "F * C \<le> f * c" using assms by (intro mult_mono) simp_all
  then show ?thesis using assms by (intro mult_mono) simp_all
qed

lemma weight_first_half:
  assumes "0 \<le> d" "d \<le> 26"
  shows "weight_of_delta d =
     (1 / 20 + 19 / 20 * exp (- ((of_int d / 4)\<^sup>2))) * 2 powr (- (of_int d / (261 / 5)))
       * (1 - 2 powr (- of_int d))"
proof -
  have r: "(0::real) \<le> of_int d" "(of_int d :: real) \<le> 26" using assms by simp_all
  then have m: "py_fmod (of_int d) (261 / 5) = of_int d" by (intro py_fmod_small) simp_all
  have "min (of_int d) (261 / 5 - of_int d) = (of_int d :: real)" using r by simp
  then show ?thesis by (simp add: weight_of_delta_def Let_def m)
qed

lemma ln_two_ge_half: "1 / 2 \<le> ln (2 :: real)"
proof -
  have "exp (1 / 2) \<le> (2 :: real)" using exp_bound_half [of "1 / 2 :: real"] by simp
  moreover have "1 / 2 \<le> ln (2 :: real) \<longleftrightarrow> exp (1 / 2) \<le> (2 :: real)"
    by (rule ln_ge_iff) simp
  ultimately show ?thesis by blast
qed

lemma weekly_decay: "2 powr (- (1 / (261 / 5))) \<le> (126 / 127 :: real)"
proof -
  have "(127 / 126 :: real) \<le> 1 + 5 / 261 * ln 2" using ln_two_ge_half by simp
  also have "\<dots> \<le> exp (5 / 261 * ln 2)" by (rule exp_ge_add_one_self)
  also have "\<dots> = 2 powr (1 / (261 / 5))" by (simp add: powr_def mult.commute)
  finally have "(127 / 126 :: real) \<le> 2 powr (1 / (261 / 5))" .
  then have "1 / 2 powr (1 / (261 / 5)) \<le> 1 / (127 / 126 :: real)"
    by (intro divide_left_mono) simp_all
  then show ?thesis by (simp add: powr_minus_divide)
qed

lemma weight_step:
  assumes "5 \<le> d" "d \<le> 25"
  shows "weight_of_delta (d + 1) < weight_of_delta d"
proof -
  define x :: real where "x = of_int d"
  define t :: real where "t = 2 powr (- x)"
  define q :: real where "q = 2 powr (- (1 / (261 / 5)))"
  define G :: real where "G = 2 powr (- (x / (261 / 5)))"
  define A :: real where "A = 1 / 20 + 19 / 20 * exp (- ((x / 4)\<^sup>2))"
  define A' :: real where "A' = 1 / 20 + 19 / 20 * exp (- (((x + 1) / 4)\<^sup>2))"
  have x: "5 \<le> x" "x \<le> 25" using assms by (simp_all add: x_def)
  have wd: "weight_of_delta d = A * G * (1 - t)"
    using assms by (simp add: weight_first_half x_def A_def G_def t_def)
  have "2 powr (- ((x + 1) / (261 / 5))) = 2 powr (- (x / (261 / 5)) + - (1 / (261 / 5)))"
    by (rule arg_cong [where f = "(powr) 2"]) (simp add: field_simps)
  also have "\<dots> = G * q" unfolding G_def q_def by (rule powr_add)
  finally have "2 powr (- ((x + 1) / (261 / 5))) = G * q" .
  moreover have "2 powr (- (x + 1)) = t / 2"
    unfolding t_def using powr_add [of 2 "- x" "- 1"] by (simp add: powr_minus_divide)
  ultimately have wd1: "weight_of_delta (d + 1) = A' * (G * q) * (1 - t / 2)"
    using assms weight_first_half [of "d + 1"] by (simp add: x_def A'_def add.commute)
  have G: "0 < G" by (simp add: G_def)
  have q: "0 < q" "q \<le> 126 / 127" using weekly_decay by (simp_all add: q_def)
  have t: "0 < t" by (simp add: t_def)
  have t32: "t \<le> 1 / 32"
    using powr_mono [of "- x" "- 5" 2] x by (simp add: t_def powr_minus_divide)
  have "(x / 4)\<^sup>2 < ((x + 1) / 4)\<^sup>2" using x by (simp add: power2_eq_square field_simps)
  then have AA: "A' < A" by (simp add: A_def A'_def)
  have A': "0 < A'" by (simp add: A'_def add_pos_nonneg)
  have core: "A' * q * (1 - t / 2) < A * (1 - t)"
  proof (cases "6 \<le> d")
    case True
    then have "6 \<le> x" by (simp add: x_def)
    then have t64: "t \<le> 1 / 64"
      using powr_mono [of "- x" "- 6" 2] by (simp add: t_def powr_minus_divide)
    have "q * (1 - t / 2) \<le> 126 / 127 * (1 - t / 2)"
      using q t32 by (intro mult_right_mono) simp_all
    also have "\<dots> \<le> 1 - t" using t64 by simp
    finally have "A' * (q * (1 - t / 2)) \<le> A' * (1 - t)"
      using A' by (intro mult_left_mono) simp_all
    also have "\<dots> < A * (1 - t)" using AA t32 by (intro mult_strict_right_mono) simp_all
    finally show ?thesis by (simp add: mult.assoc)
  next
    case False
    then have d5: "d = 5" using assms by simp
    then have x5: "x = 5" by (simp add: x_def)
    define e :: real where "e = exp (- (25 / 16))"
    have t5: "t = 1 / 32" by (simp add: t_def x5 powr_minus_divide)
    have A5: "A = 1 / 20 + 19 / 20 * e" by (simp add: A_def x5 e_def power2_eq_square)
    have "exp (- (9 / 4)) = e * exp (- (11 / 16) :: real)"
      unfolding e_def by (simp add: exp_add [symmetric])
    moreover have "exp (- (11 / 16)) \<le> (16 / 27 :: real)"
      using exp_neg_bound [of "11 / 16"] by simp
    moreover have e0: "0 < e" by (simp add: e_def)
    ultimately have "exp (- (9 / 4)) \<le> e * (16 / 27)"
      by (simp add: mult_left_mono)
    moreover have "A' = 1 / 20 + 19 / 20 * exp (- (9 / 4))"
      by (simp add: A'_def x5 power2_eq_square)
    ultimately have A'5: "A' \<le> 1 / 20 + 19 / 20 * (e * (16 / 27))" by simp
    have "exp (25 / 16) \<le> exp (2 :: real)" by simp
    also have "\<dots> = exp 1 ^ 2" using exp_double [of "1 :: real"] by simp
    also have "\<dots> \<le> 3 ^ 2" using exp_le by (intro power_mono) simp_all
    finally have "exp (25 / 16) \<le> (9 :: real)" by simp
    then have "1 / 9 \<le> 1 / exp (25 / 16 :: real)" by (intro divide_left_mono) simp_all
    then have e9: "1 / 9 \<le> e" by (simp add: e_def exp_minus')
    have "q * (1 - t / 2) \<le> 126 / 127 * (63 / 64)"
      using q by (simp add: t5)
    then have "A' * (q * (1 - t / 2)) \<le> (1 / 20 + 19 / 20 * (e * (16 / 27))) * (126 / 127 * (63 / 64))"
      using A'5 A' q by (intro mult_mono) (simp_all add: t5)
    also have "\<dots> < (1 / 20 + 19 / 20 * e) * (31 / 32)" using e9 by (simp add: field_simps)
    finally show ?thesis by (simp add: A5 t5 mult.assoc)
  qed
  have "A' * (G * q) * (1 - t / 2) = G * (A' * q * (1 - t / 2))" by simp
  also have "\<dots> < G * (A * (1 - t))" using core G by (rule mult_strict_left_mono)
  also have "\<dots> = A * G * (1 - t)" by simp
  finally show ?thesis by (simp add: wd wd1)
qed

lemma weight_below_period:
  assumes "0 \<le> d" "d \<le> 52"
  shows "weight_of_delta d =
     (1 / 20 + 19 / 20 * exp (- ((min (of_int d) (261 / 5 - of_int d) / 4)\<^sup>2)))
       * 2 powr (- (of_int d / (261 / 5))) * (1 - 2 powr (- of_int d))"
proof -
  have r: "(0::real) \<le> of_int d" "(of_int d :: real) \<le> 52" using assms by simp_all
  then have m: "py_fmod (of_int d) (261 / 5) = of_int d" by (intro py_fmod_small) simp_all
  show ?thesis by (simp add: weight_of_delta_def Let_def m)
qed

lemma ln_two_ge: "3 / 5 \<le> ln (2 :: real)"
proof -
  have "(9 / 10 :: real) \<le> exp (- (1 / 10))"
    using exp_ge_add_one_self [of "- (1 / 10) :: real"] by simp
  then have "1 / exp (- (1 / 10)) \<le> 1 / (9 / 10 :: real)"
    by (intro divide_left_mono) simp_all
  then have tenth: "exp (1 / 10) \<le> (10 / 9 :: real)" by (simp add: exp_minus field_simps)
  have "exp (3 / 5 :: real) = exp (of_nat 6 * (1 / 10))" by simp
  also have "\<dots> = exp (1 / 10) ^ 6" by (rule exp_of_nat_mult)
  also have "\<dots> \<le> (10 / 9) ^ 6" using tenth by (intro power_mono) simp_all
  also have "\<dots> \<le> (2 :: real)" by (simp add: power_divide)
  finally have "exp (3 / 5) \<le> (2 :: real)" .
  moreover have "3 / 5 \<le> ln (2 :: real) \<longleftrightarrow> exp (3 / 5) \<le> (2 :: real)"
    by (rule ln_ge_iff) simp
  ultimately show ?thesis by blast
qed

lemma weekly_decay_tight: "2 powr (- (1 / (261 / 5))) \<le> (261 / 264 :: real)"
proof -
  have "(264 / 261 :: real) \<le> 1 + 5 / 261 * ln 2" using ln_two_ge by simp
  also have "\<dots> \<le> exp (5 / 261 * ln 2)" by (rule exp_ge_add_one_self)
  also have "\<dots> = 2 powr (1 / (261 / 5))" by (simp add: powr_def mult.commute)
  finally have "(264 / 261 :: real) \<le> 2 powr (1 / (261 / 5))" .
  then have "1 / 2 powr (1 / (261 / 5)) \<le> 1 / (264 / 261 :: real)"
    by (intro divide_left_mono) simp_all
  then show ?thesis by (simp add: powr_minus_divide)
qed

lemma exp_square_lower:
  fixes b b' z :: real
  assumes "b \<le> exp z" and "0 \<le> b" and "b' \<le> b\<^sup>2"
  shows "b' \<le> exp (2 * z)"
proof -
  have "b\<^sup>2 \<le> (exp z)\<^sup>2" using assms(1,2) by (intro power_mono) simp_all
  then show ?thesis using assms(3) by (simp add: exp_double)
qed

lemma exp_square_upper:
  fixes b b' z :: real
  assumes "exp z \<le> b" and "b\<^sup>2 \<le> b'"
  shows "exp (2 * z) \<le> b'"
proof -
  have "(exp z)\<^sup>2 \<le> b\<^sup>2" using assms(1) by (intro power_mono) simp_all
  then show ?thesis using assms(2) by (simp add: exp_double)
qed

lemma exp_late: "(2400 :: real) \<le> exp (196 / 25)"
proof -
  have s0: "(6449 / 6400 :: real) \<le> exp (49 / 6400)"
    using exp_ge_add_one_self [of "49 / 6400 :: real"] by simp
  have s1: "(10153711 / 10000000 :: real) \<le> exp (49 / 3200)"
    using exp_square_lower [OF s0, of "10153711 / 10000000"] by (simp add: power2_eq_square)
  have s2: "(1288723 / 1250000 :: real) \<le> exp (49 / 1600)"
    using exp_square_lower [OF s1, of "1288723 / 1250000"] by (simp add: power2_eq_square)
  have s3: "(2657291 / 2500000 :: real) \<le> exp (49 / 800)"
    using exp_square_lower [OF s2, of "2657291 / 2500000"] by (simp add: power2_eq_square)
  have s4: "(1412239 / 1250000 :: real) \<le> exp (49 / 400)"
    using exp_square_lower [OF s3, of "1412239 / 1250000"] by (simp add: power2_eq_square)
  have s5: "(12764281 / 10000000 :: real) \<le> exp (49 / 200)"
    using exp_square_lower [OF s4, of "12764281 / 10000000"] by (simp add: power2_eq_square)
  have s6: "(8146343 / 5000000 :: real) \<le> exp (49 / 100)"
    using exp_square_lower [OF s5, of "8146343 / 5000000"] by (simp add: power2_eq_square)
  have s7: "(26545161 / 10000000 :: real) \<le> exp (49 / 50)"
    using exp_square_lower [OF s6, of "26545161 / 10000000"] by (simp add: power2_eq_square)
  have s8: "(70464557 / 10000000 :: real) \<le> exp (49 / 25)"
    using exp_square_lower [OF s7, of "70464557 / 10000000"] by (simp add: power2_eq_square)
  have s9: "(49652537 / 1000000 :: real) \<le> exp (98 / 25)"
    using exp_square_lower [OF s8, of "49652537 / 1000000"] by (simp add: power2_eq_square)
  have s10: "(1540859 / 625 :: real) \<le> exp (196 / 25)"
    using exp_square_lower [OF s9, of "1540859 / 625"] by (simp add: power2_eq_square)
  show ?thesis using s10 by simp
qed

lemma exp_rise: "exp (2601 / 400) \<le> (780 :: real)"
proof -
  have s0: "exp (2601 / 51200) \<le> (1316727 / 1250000 :: real)"
    using exp_bound [of "2601 / 51200"] by (simp add: power2_eq_square)
  have s1: "exp (2601 / 25600) \<le> (55481 / 50000 :: real)"
    using exp_square_upper [OF s0, of "55481 / 50000"] by (simp add: power2_eq_square)
  have s2: "exp (2601 / 12800) \<le> (61563 / 50000 :: real)"
    using exp_square_upper [OF s1, of "61563 / 50000"] by (simp add: power2_eq_square)
  have s3: "exp (2601 / 6400) \<le> (151601 / 100000 :: real)"
    using exp_square_upper [OF s2, of "151601 / 100000"] by (simp add: power2_eq_square)
  have s4: "exp (2601 / 3200) \<le> (229829 / 100000 :: real)"
    using exp_square_upper [OF s3, of "229829 / 100000"] by (simp add: power2_eq_square)
  have s5: "exp (2601 / 1600) \<le> (264107 / 50000 :: real)"
    using exp_square_upper [OF s4, of "264107 / 50000"] by (simp add: power2_eq_square)
  have s6: "exp (2601 / 800) \<le> (279011 / 10000 :: real)"
    using exp_square_upper [OF s5, of "279011 / 10000"] by (simp add: power2_eq_square)
  have s7: "exp (2601 / 400) \<le> (97309 / 125 :: real)"
    using exp_square_upper [OF s6, of "97309 / 125"] by (simp add: power2_eq_square)
  show ?thesis using s7 by simp
qed

lemma exp_seven_tenths: "(2 :: real) \<le> exp (7 / 10)"
proof -
  have s0: "(647 / 640 :: real) \<le> exp (7 / 640)"
    using exp_ge_add_one_self [of "7 / 640 :: real"] by simp
  have s1: "(510997 / 500000 :: real) \<le> exp (7 / 320)"
    using exp_square_lower [OF s0, of "510997 / 500000"] by (simp add: power2_eq_square)
  have s2: "(1044471 / 1000000 :: real) \<le> exp (7 / 160)"
    using exp_square_lower [OF s1, of "1044471 / 1000000"] by (simp add: power2_eq_square)
  have s3: "(1090919 / 1000000 :: real) \<le> exp (7 / 80)"
    using exp_square_lower [OF s2, of "1090919 / 1000000"] by (simp add: power2_eq_square)
  have s4: "(148763 / 125000 :: real) \<le> exp (7 / 40)"
    using exp_square_lower [OF s3, of "148763 / 125000"] by (simp add: power2_eq_square)
  have s5: "(1416347 / 1000000 :: real) \<le> exp (7 / 20)"
    using exp_square_lower [OF s4, of "1416347 / 1000000"] by (simp add: power2_eq_square)
  have s6: "(1003019 / 500000 :: real) \<le> exp (7 / 10)"
    using exp_square_lower [OF s5, of "1003019 / 500000"] by (simp add: power2_eq_square)
  show ?thesis using s6 by simp
qed

lemma late_bump:
  assumes "14 / 5 \<le> y"
  shows "exp (- (y\<^sup>2)) \<le> (1 / 2400 :: real)"
proof -
  have "(14 / 5)\<^sup>2 \<le> y\<^sup>2" using assms by (intro power_mono) simp_all
  then have "196 / 25 \<le> y\<^sup>2" by (simp add: power2_eq_square)
  then have "exp (196 / 25) \<le> exp (y\<^sup>2)" by (simp only: exp_le_cancel_iff)
  then have "2400 \<le> exp (y\<^sup>2)" using exp_late by linarith
  then have "1 / exp (y\<^sup>2) \<le> 1 / 2400" by (intro divide_left_mono) simp_all
  then show ?thesis by (simp add: exp_minus')
qed

lemma weight_step_late:
  assumes "26 \<le> d" "d \<le> 40"
  shows "weight_of_delta (d + 1) < weight_of_delta d"
proof -
  define x :: real where "x = of_int d"
  define t :: real where "t = 2 powr (- x)"
  define q :: real where "q = 2 powr (- (1 / (261 / 5)))"
  define G :: real where "G = 2 powr (- (x / (261 / 5)))"
  define A :: real where "A = 1 / 20 + 19 / 20 * exp (- ((min x (261 / 5 - x) / 4)\<^sup>2))"
  define A' :: real where "A' = 1 / 20 + 19 / 20 * exp (- (((261 / 5 - (x + 1)) / 4)\<^sup>2))"
  have x: "26 \<le> x" "x \<le> 40" using assms by (simp_all add: x_def)
  have wd: "weight_of_delta d = A * G * (1 - t)"
    using assms by (simp add: weight_below_period x_def A_def G_def t_def)
  have "2 powr (- ((x + 1) / (261 / 5))) = 2 powr (- (x / (261 / 5)) + - (1 / (261 / 5)))"
    by (rule arg_cong [where f = "(powr) 2"]) (simp add: field_simps)
  also have "\<dots> = G * q" unfolding G_def q_def by (rule powr_add)
  finally have Gq: "2 powr (- ((x + 1) / (261 / 5))) = G * q" .
  have t2: "2 powr (- (x + 1)) = t / 2"
    unfolding t_def using powr_add [of 2 "- x" "- 1"] by (simp add: powr_minus_divide)
  have "min (x + 1) (261 / 5 - (x + 1)) = 261 / 5 - (x + 1)" using x by simp
  then have wd1: "weight_of_delta (d + 1) = A' * (G * q) * (1 - t / 2)"
    using assms weight_below_period [of "d + 1"] Gq t2
    by (simp add: x_def A'_def add.commute)
  have G: "0 < G" by (simp add: G_def)
  have q: "0 < q" "q \<le> 261 / 264" using weekly_decay_tight by (simp_all add: q_def)
  have t: "0 < t" by (simp add: t_def)
  have t10: "t \<le> 1 / 1024"
    using powr_mono [of "- x" "- 10" 2] x by (simp add: t_def powr_minus_divide)
  have A: "1 / 20 \<le> A" by (simp add: A_def)
  have "14 / 5 \<le> (261 / 5 - (x + 1)) / 4" using x by simp
  then have "exp (- (((261 / 5 - (x + 1)) / 4)\<^sup>2)) \<le> 1 / 2400" by (rule late_bump)
  then have A'u: "A' \<le> 1 / 20 + 19 / 20 * (1 / 2400)" by (simp add: A'_def)
  have A'p: "0 < A'" by (simp add: A'_def add_pos_nonneg)
  have AQ: "A' * q \<le> (1 / 20 + 19 / 20 * (1 / 2400)) * (261 / 264)"
    using A'u q A'p by (intro mult_mono) simp_all
  have h: "1 - t / 2 \<le> 1" "0 \<le> 1 - t / 2" using t t10 by simp_all
  have "A' * q * (1 - t / 2) \<le> (1 / 20 + 19 / 20 * (1 / 2400)) * (261 / 264) * 1"
    by (rule mult_mono [OF AQ h(1) _ h(2)]) simp
  also have "\<dots> < 1 / 20 * (1 - 1 / 1024)" by simp
  also have "\<dots> \<le> A * (1 - t)" using A t10 by (intro mult_mono) simp_all
  finally have core: "A' * q * (1 - t / 2) < A * (1 - t)" .
  have "A' * (G * q) * (1 - t / 2) = G * (A' * q * (1 - t / 2))" by simp
  also have "\<dots> < G * (A * (1 - t))" using core G by (rule mult_strict_left_mono)
  also have "\<dots> = A * G * (1 - t)" by simp
  finally show ?thesis by (simp add: wd wd1)
qed

lemma weight_decreasing_to_41:
  assumes "4 < d" and "d < d'" and "d' \<le> 41"
  shows "weight_of_delta d' < weight_of_delta d"
  using assms(2,3)
proof (induction d' rule: int_gr_induct)
  case base
  then show ?case
    using weight_step [of d] weight_step_late [of d] assms(1) by (cases "d \<le> 25") simp_all
next
  case (step i)
  then have "weight_of_delta (i + 1) < weight_of_delta i"
    using weight_step [of i] weight_step_late [of i] assms(1) by (cases "i \<le> 25") simp_all
  moreover have "weight_of_delta i < weight_of_delta d" using step by simp
  ultimately show ?case by simp
qed

lemma ln_two_le: "ln (2 :: real) \<le> 7 / 10"
proof -
  have "ln (2 :: real) \<le> ln (exp (7 / 10))"
    using exp_seven_tenths by (intro ln_mono) simp_all
  then show ?thesis by simp
qed

lemma weekly_decay_lower: "(515 / 522 :: real) \<le> 2 powr (- (1 / (261 / 5)))"
proof -
  have "(515 / 522 :: real) \<le> 1 + - (5 / 261 * ln 2)" using ln_two_le by simp
  also have "\<dots> \<le> exp (- (5 / 261 * ln 2))" by (rule exp_ge_add_one_self)
  also have "\<dots> = 2 powr (- (1 / (261 / 5)))" by (simp add: powr_def mult.commute)
  finally show ?thesis .
qed

lemma weight_rises_at_42: "weight_of_delta 41 < weight_of_delta 42"
proof -
  define b41 :: real where "b41 = exp (- (((261 / 5 - 41) / 4)\<^sup>2))"
  define c41 :: real where "c41 = 2 powr (- (41 / (261 / 5)))"
  define d41 :: real where "d41 = 1 - 2 powr (- 41)"
  define b42 :: real where "b42 = exp (- (((261 / 5 - 42) / 4)\<^sup>2))"
  define c42 :: real where "c42 = 2 powr (- (42 / (261 / 5)))"
  define d42 :: real where "d42 = 1 - 2 powr (- 42)"
  define q :: real where "q = 2 powr (- (1 / (261 / 5)))"
  have m41: "py_fmod 41 (261 / 5) = 41" by (rule py_fmod_small) simp_all
  have m42: "py_fmod 42 (261 / 5) = 42" by (rule py_fmod_small) simp_all
  have w41: "weight_of_delta 41 = (1 / 20 + 19 / 20 * b41) * c41 * d41"
    by (simp add: weight_of_delta_def Let_def m41 b41_def c41_def d41_def)
  have w42: "weight_of_delta 42 = (1 / 20 + 19 / 20 * b42) * c42 * d42"
    by (simp add: weight_of_delta_def Let_def m42 b42_def c42_def d42_def)
  have b41: "b41 \<le> 1 / 2400"
    using late_bump [of "(261 / 5 - 41) / 4"] by (simp add: b41_def)
  have "1 / 780 \<le> 1 / exp (2601 / 400 :: real)"
    using exp_rise by (intro divide_left_mono) simp_all
  then have b42: "1 / 780 \<le> b42"
    by (simp add: b42_def exp_minus' power2_eq_square)
  have "- (42 / (261 / 5)) = - (41 / (261 / 5)) + - (1 / (261 / 5 :: real))" by simp
  then have "c42 = 2 powr (- (41 / (261 / 5)) + - (1 / (261 / 5)))"
    unfolding c42_def by (rule arg_cong)
  then have c42: "c42 = c41 * q" unfolding c41_def q_def by (simp only: powr_add)
  have c41: "0 < c41" by (simp add: c41_def)
  have q: "515 / 522 \<le> q" using weekly_decay_lower by (simp add: q_def)
  have "2 powr (- 41) \<le> (1 / 2 :: real)" using two_powr_neg_le_half [of 41] by simp
  then have d41: "0 < d41" by (simp add: d41_def)
  have "2 powr (- 42) \<le> (2 powr (- 41) :: real)" by (intro powr_mono) simp_all
  then have d42: "d41 \<le> d42" by (simp add: d41_def d42_def)
  have "1 / 20 + 19 / 20 * b41 \<le> 1 / 20 + 19 / 20 * (1 / 2400)" using b41 by simp
  also have "\<dots> < (1 / 20 + 19 / 20 * (1 / 780)) * (515 / 522 :: real)" by simp
  also have "\<dots> \<le> (1 / 20 + 19 / 20 * b42) * q"
    using b42 q by (intro mult_mono) simp_all
  finally have A: "1 / 20 + 19 / 20 * b41 < (1 / 20 + 19 / 20 * b42) * q" .
  have "(1 / 20 + 19 / 20 * b41) * c41 < (1 / 20 + 19 / 20 * b42) * q * c41"
    using A c41 by (rule mult_strict_right_mono)
  then have "(1 / 20 + 19 / 20 * b41) * c41 * d41 < (1 / 20 + 19 / 20 * b42) * q * c41 * d41"
    using d41 by (rule mult_strict_right_mono)
  also have "\<dots> = (1 / 20 + 19 / 20 * b42) * c42 * d41" by (simp add: c42)
  also have "\<dots> \<le> (1 / 20 + 19 / 20 * b42) * c42 * d42"
  proof (rule mult_left_mono [OF d42])
    have "0 \<le> b42" by (simp add: b42_def)
    moreover have "0 \<le> c42" by (simp add: c42_def)
    ultimately show "0 \<le> (1 / 20 + 19 / 20 * b42) * c42" by simp
  qed
  finally show ?thesis by (simp add: w41 w42)
qed

text \<open>
  Claim C3 as stated fails: 26 weeks lie beyond the width 4 of the seasonal bump and 52
  weeks lie further still, yet the weight at 52 weeks is larger, because the bump returns
  at every multiple of 52.2 weeks. (The weight at 26 is at most 0.072, at 52 at least 0.2475.)
  The first increase is from 41 to 42 weeks.
\<close>

theorem weight_not_monotone:
  "(4 :: int) < 26 \<and> (26 :: int) < 52 \<and> weight_of_delta 26 < weight_of_delta 52
   \<and> (4 :: int) < 41 \<and> (41 :: int) < 42 \<and> weight_of_delta 41 < weight_of_delta 42"
proof -
  define b26 :: real where "b26 = exp (- ((26 / 4)\<^sup>2))"
  define c26 :: real where "c26 = 2 powr (- (26 / (522 / 10)))"
  define d26 :: real where "d26 = 1 - 2 powr (- 26)"
  define b52 :: real where "b52 = exp (- (((522 / 10 - 52) / 4)\<^sup>2))"
  define c52 :: real where "c52 = 2 powr (- (52 / (522 / 10)))"
  define d52 :: real where "d52 = 1 - 2 powr (- 52)"
  have m26: "py_fmod 26 (261 / 5) = 26" by (rule py_fmod_small) simp_all
  have m52: "py_fmod 52 (261 / 5) = 52" by (rule py_fmod_small) simp_all
  have w26: "weight_of_delta 26 = (1 / 20 + 19 / 20 * b26) * c26 * d26"
    by (simp add: weight_of_delta_def Let_def m26 b26_def c26_def d26_def)
  have w52: "weight_of_delta 52 = (1 / 20 + 19 / 20 * b52) * c52 * d52"
    by (simp add: weight_of_delta_def Let_def m52 b52_def c52_def d52_def)
  have "0 \<le> b26" by (simp add: b26_def)
  moreover have "b26 \<le> 4 / 173"
    using exp_neg_bound [of "(26 / 4)\<^sup>2"] by (simp add: b26_def power2_eq_square)
  ultimately have f26: "0 \<le> 1 / 20 + 19 / 20 * b26" "1 / 20 + 19 / 20 * b26 \<le> 72 / 1000"
    by simp_all
  have c26: "0 \<le> c26" "c26 \<le> 1"
    using two_powr_neg_le [of "26 / (522 / 10)"] by (simp_all add: c26_def)
  have d26: "0 \<le> d26" "d26 \<le> 1"
    using two_powr_neg_le [of 26] by (simp_all add: d26_def)
  have upper: "weight_of_delta 26 \<le> 72 / 1000"
    unfolding w26 by (rule product_upper [OF f26 c26 d26])
  have "399 / 400 \<le> b52"
    using exp_ge_add_one_self [of "- (((522 / 10 - 52) / 4)\<^sup>2) :: real"]
    by (simp add: b52_def power2_eq_square)
  then have f52: "99 / 100 \<le> 1 / 20 + 19 / 20 * b52" by simp
  have c52: "1 / 2 \<le> c52"
    using two_powr_neg_ge_half [of "52 / (522 / 10)"] by (simp add: c52_def)
  have d52: "1 / 2 \<le> d52"
    using two_powr_neg_le_half [of 52] by (simp add: d52_def)
  have "99 / 100 * (1 / 2) * (1 / 2) \<le> (1 / 20 + 19 / 20 * b52) * c52 * d52"
    by (rule product_lower [OF _ f52 _ c52 _ d52]) simp_all
  then have lower: "99 / 400 \<le> weight_of_delta 52" unfolding w52 by simp
  show ?thesis using upper lower weight_rises_at_42 by simp
qed

text \<open>
  Claim C3, as amended. From the width 4 of the seasonal bump up to 41 weeks the claim
  holds: for a training week at distance \<open>d\<close> from the target and another at distance
  \<open>d'\<close>, with \<open>4 < d < d' \<le> 41\<close> weeks, the kernel weight of the farther week is strictly
  smaller. The bound 41 cannot be raised: the weight at 42 weeks exceeds the weight at 41.
\<close>

theorem get_weight_decreasing:
  assumes "delta_epiweeks cal t T = d" and "delta_epiweeks cal t' T = d'"
    and "4 < d" and "d < d'" and "d' \<le> 41"
  shows "get_weight cal t' T < get_weight cal t T"
  using weight_decreasing_to_41 [OF assms(3-5)] assms(1,2) by (simp add: get_weight_def)

theorem get_weight_decreasing_witness:
  "delta_epiweeks plain_calendar 201740 201745 = 5
   \<and> delta_epiweeks plain_calendar 201704 201745 = 41
   \<and> (4 :: int) < 5 \<and> (5 :: int) < 41 \<and> (41 :: int) \<le> 41
   \<and> get_weight plain_calendar 201704 201745 < get_weight plain_calendar 201740 201745"
  using get_weight_decreasing [of plain_calendar 201740 201745 5 201704 41]
  by (simp add: plain_calendar_def)


end
